theory Spec2Isabelle
  imports Complex_Main "HOL-Library.Word"
begin

section \<open>JavaScript strings and numbers\<close>

text \<open>
  A JavaScript string is a sequence of UTF-16 code units; \<open>length\<close> counts code units and
  the character classes of a regular expression test one code unit at a time.  The
  literals of the source are ASCII and are written through \<open>js\<close>.
\<close>

type_synonym js_string = "16 word list"

definition js :: "string \<Rightarrow> js_string" where
  "js s = map (\<lambda>c. of_nat (of_char c)) s"

text \<open>Decimal rendering of an integral number, as a template literal renders it.\<close>

fun digits :: "nat \<Rightarrow> js_string" where
  "digits n =
     (if n < 10 then [of_nat (48 + n)] else digits (n div 10) @ [of_nat (48 + n mod 10)])"

definition Number_toString :: "int \<Rightarrow> js_string" where
  "Number_toString i = (if i < 0 then js ''-'' @ digits (nat (- i)) else digits (nat i))"

text \<open>\<open>Math.ceil(x / d)\<close> on integral \<open>x\<close> and \<open>d\<close>.\<close>

definition Math_ceil_div :: "int \<Rightarrow> int \<Rightarrow> int" where
  "Math_ceil_div x d = \<lceil>real_of_int x / real_of_int d\<rceil>"

section \<open>Error taxonomy (types.ts)\<close>

datatype AuthErrorType =
    INVALID_CREDENTIALS
  | UNAUTHORIZED
  | FORBIDDEN
  | NETWORK_ERROR
  | TIMEOUT
  | INVALID_URL
  | SSL_ERROR
  | RATE_LIMITED
  | UNKNOWN_ERROR

text \<open>The enum is string valued: every member's value is its own name.\<close>

fun AuthErrorType_value :: "AuthErrorType \<Rightarrow> js_string" where
  "AuthErrorType_value INVALID_CREDENTIALS = js ''INVALID_CREDENTIALS''"
| "AuthErrorType_value UNAUTHORIZED = js ''UNAUTHORIZED''"
| "AuthErrorType_value FORBIDDEN = js ''FORBIDDEN''"
| "AuthErrorType_value NETWORK_ERROR = js ''NETWORK_ERROR''"
| "AuthErrorType_value TIMEOUT = js ''TIMEOUT''"
| "AuthErrorType_value INVALID_URL = js ''INVALID_URL''"
| "AuthErrorType_value SSL_ERROR = js ''SSL_ERROR''"
| "AuthErrorType_value RATE_LIMITED = js ''RATE_LIMITED''"
| "AuthErrorType_value UNKNOWN_ERROR = js ''UNKNOWN_ERROR''"

text \<open>
  \<open>WordPressAuthError(type, message, httpStatus?)\<close>.  The fourth constructor argument,
  the original error object, is kept by reference only and is left out.
\<close>

record WordPressAuthError =
  type :: AuthErrorType
  message :: js_string
  httpStatus :: "nat option"

section \<open>Rate limiter (http-client.ts)\<close>

text \<open>
  Timestamps are the integral millisecond readings of \<open>Date.now()\<close>.  The limit is a
  JavaScript number that the class does not validate; it is an integer here, of any sign.
\<close>

record RateLimitPolicy =
  requests_per_minute :: int
  burst_limit :: int

record RateLimitConfig = RateLimitPolicy +
  window_ms :: int

record RateLimiter =
  requests :: "int list"
  config :: RateLimitConfig

definition new_RateLimiter :: "RateLimitConfig \<Rightarrow> RateLimiter" where
  "new_RateLimiter cfg = \<lparr>requests = [], config = cfg\<rparr>"

text \<open>
  The text put between \<open>Please wait\<close> and \<open>seconds\<close>.  \<open>this.requests[0]\<close> of an empty
  array is \<open>undefined\<close>, and the arithmetic on it yields \<open>NaN\<close>.
\<close>

definition waitSeconds :: "RateLimiter \<Rightarrow> int \<Rightarrow> js_string" where
  "waitSeconds rl now =
     (case requests rl of
        [] \<Rightarrow> js ''NaN''
      | oldestRequest # _ \<Rightarrow>
          (let waitTime = window_ms (config rl) - (now - oldestRequest)
           in Number_toString (Math_ceil_div waitTime 1000)))"

text \<open>
  \<open>checkLimit()\<close> at clock reading \<open>now\<close>.  The pruned array is assigned to the field
  before the limit is tested, so the limiter is returned updated on both paths.
\<close>

definition checkLimit :: "RateLimiter \<Rightarrow> int \<Rightarrow> (WordPressAuthError + unit) \<times> RateLimiter" where
  "checkLimit rl now =
     (let windowStart = now - window_ms (config rl);
          rl1 = rl\<lparr>requests := filter (\<lambda>time. time > windowStart) (requests rl)\<rparr>
      in if int (length (requests rl1)) \<ge> requests_per_minute (config rl1)
         then (Inl \<lparr>type = RATE_LIMITED,
                    message = js ''Rate limit exceeded. Please wait '' @ waitSeconds rl1 now
                              @ js '' seconds.'',
                    httpStatus = None\<rparr>, rl1)
         else (Inr (), rl1\<lparr>requests := requests rl1 @ [now]\<rparr>))"

text \<open>A run of checks at the given clock readings that are all admitted.\<close>

fun admitted :: "RateLimiter \<Rightarrow> int list \<Rightarrow> RateLimiter option" where
  "admitted rl [] = Some rl"
| "admitted rl (t # ts) =
     (case checkLimit rl t of
        (Inr _, rl') \<Rightarrow> admitted rl' ts
      | (Inl _, _) \<Rightarrow> None)"

section \<open>Platform functions\<close>

text \<open>
  Three built-ins of the runtime are used by the source but are not part of it: the
  WHATWG URL parser (\<open>new URL(s)\<close>, which throws a \<open>TypeError\<close> with some message or
  yields a URL object), the Base64 encoder of \<open>Buffer\<close>, and the replacement of all
  case-insensitive matches of a regular expression that is compiled at run time from a
  configured string (\<open>text.replace(new RegExp(pattern, 'gi'), replacement)\<close>, where the
  constructor throws a \<open>SyntaxError\<close> on an ill-formed pattern).  They are parameters of
  the model; \<open>None\<close> and \<open>Inl\<close> stand for a thrown exception.
\<close>

record URL =
  protocol :: js_string
  hostname :: js_string

record platform =
  new_URL :: "js_string \<Rightarrow> js_string + URL"
  Buffer_base64 :: "js_string \<Rightarrow> js_string option"
  RegExp_gi_replace :: "js_string \<Rightarrow> js_string \<Rightarrow> js_string \<Rightarrow> js_string option"

section \<open>String helpers\<close>

text \<open>The code units matched by \<open>\s\<close>.\<close>

definition is_whitespace :: "16 word \<Rightarrow> bool" where
  "is_whitespace c \<longleftrightarrow>
     (9 \<le> c \<and> c \<le> 13) \<or> c = 32 \<or> c = 160 \<or> c = 5760 \<or> (8192 \<le> c \<and> c \<le> 8202)
     \<or> c = 8232 \<or> c = 8233 \<or> c = 8239 \<or> c = 8287 \<or> c = 12288 \<or> c = 65279"

text \<open>The code units matched by \<open>[a-zA-Z0-9]\<close>.\<close>

definition is_alnum :: "16 word \<Rightarrow> bool" where
  "is_alnum c \<longleftrightarrow> (97 \<le> c \<and> c \<le> 122) \<or> (65 \<le> c \<and> c \<le> 90) \<or> (48 \<le> c \<and> c \<le> 57)"

text \<open>The code units matched by \<open>[A-Za-z0-9+\/=]\<close>.\<close>

definition is_token_char :: "16 word \<Rightarrow> bool" where
  "is_token_char c \<longleftrightarrow> is_alnum c \<or> c = 43 \<or> c = 47 \<or> c = 61"

text \<open>
  Case folding of the \<open>i\<close> flag, restricted to what can match an ASCII letter: a code
  unit outside ASCII is never folded onto an ASCII one.
\<close>

definition fold_case :: "16 word \<Rightarrow> 16 word" where
  "fold_case c = (if 65 \<le> c \<and> c \<le> 90 then c + 32 else c)"

text \<open>\<open>Array.prototype.join\<close> on strings.\<close>

fun Array_join :: "js_string \<Rightarrow> js_string list \<Rightarrow> js_string" where
  "Array_join sep [] = []"
| "Array_join sep [x] = x"
| "Array_join sep (x # y # ys) = x @ sep @ Array_join sep (y # ys)"

text \<open>
  \<open>s.replace(pattern, replacement)\<close> with a string pattern: the first occurrence only.
\<close>

fun String_replace :: "js_string \<Rightarrow> js_string \<Rightarrow> js_string \<Rightarrow> js_string" where
  "String_replace [] pat rep = (if pat = [] then rep else [])"
| "String_replace (c # cs) pat rep =
     (if take (length pat) (c # cs) = pat then rep @ drop (length pat) (c # cs)
      else c # String_replace cs pat rep)"

text \<open>
  Length of the match of \<open>/Basic\s+[A-Za-z0-9+\/=]+/i\<close> that starts at the head of the
  text, if there is one.  White space and token characters are disjoint, so the greedy
  match is the only one.
\<close>

definition match_Basic :: "js_string \<Rightarrow> nat option" where
  "match_Basic s =
     (if map fold_case (take 5 s) = js ''basic''
      then (let spaces = takeWhile is_whitespace (drop 5 s);
                token = takeWhile is_token_char (dropWhile is_whitespace (drop 5 s))
            in if spaces \<noteq> [] \<and> token \<noteq> [] then Some (5 + length spaces + length token)
               else None)
      else None)"

text \<open>\<open>s.replace(/Basic\s+[A-Za-z0-9+\/=]+/gi, 'Basic [CREDENTIALS]')\<close>.\<close>

function replace_Basic :: "js_string \<Rightarrow> js_string" where
  "replace_Basic [] = []"
| "replace_Basic (c # cs) =
     (case match_Basic (c # cs) of
        Some n \<Rightarrow> js ''Basic [CREDENTIALS]'' @ replace_Basic (drop n (c # cs))
      | None \<Rightarrow> c # replace_Basic cs)"
  by pat_completeness auto
termination
proof (relation "measure length")
  fix c cs n
  assume "match_Basic (c # cs) = Some n"
  then have "0 < n"
    by (auto simp add: match_Basic_def Let_def split: if_splits)
  then show "(drop n (c # cs), c # cs) \<in> measure length"
    by simp
qed simp_all

section \<open>Authentication manager (authentication-manager.ts)\<close>

record WordPressConfig =
  site_url :: js_string
  username :: js_string
  app_password :: js_string
  verify_ssl :: bool
  timeout :: int
  rate_limit :: "RateLimitPolicy option"

record Credentials =
  cred_username :: js_string
  cred_password :: js_string

text \<open>
  The state's boolean field is called \<open>isAuthenticated\<close> in the source, like the method;
  here the field is \<open>isAuthenticatedFlag\<close>.  Dates are millisecond clock readings.
\<close>

record AuthState =
  isAuthenticatedFlag :: bool
  lastVerified :: "int option"
  credentials :: "Credentials option"

record WordPressAuthenticationManager =
  authState :: AuthState
  auth_config :: WordPressConfig
  lastAuthCheck :: "int option"

definition AUTH_CACHE_DURATION :: int where
  "AUTH_CACHE_DURATION = 5 * 60 * 1000"

record SecurityValidationResult =
  isSecure :: bool
  issues :: "js_string list"
  warnings :: "js_string list"

definition isValidApplicationPassword :: "js_string \<Rightarrow> bool" where
  "isValidApplicationPassword password =
     (let cleanPassword = filter (\<lambda>c. \<not> is_whitespace c) password
      in length cleanPassword = 24 \<and> cleanPassword \<noteq> [] \<and> list_all is_alnum cleanPassword)"

definition validateSecurity :: "platform \<Rightarrow> WordPressConfig \<Rightarrow> SecurityValidationResult" where
  "validateSecurity P cfg =
     (case new_URL P (site_url cfg) of
        Inl _ \<Rightarrow>
          \<lparr>isSecure = False, issues = [js ''Invalid site URL format''], warnings = []\<rparr>
      | Inr url \<Rightarrow>
          (let issues = (if protocol url \<noteq> js ''https:'' then [js ''Site URL must use HTTPS''] else []);
               warnings =
                 (if hostname url = js ''localhost'' \<or> hostname url = js ''127.0.0.1''
                  then [js ''Using localhost - ensure this is for development only''] else [])
                 @ (if verify_ssl cfg = False
                    then [js ''SSL verification is disabled - this reduces security''] else [])
                 @ (if timeout cfg > 60000
                    then [js ''Timeout is set very high - consider reducing for better user experience'']
                    else [])
           in \<lparr>isSecure = (length issues = 0), issues = issues, warnings = warnings\<rparr>))"

text \<open>
  \<open>validateConfiguration()\<close>: the error it throws, if any.  What is thrown inside the
  second \<open>try\<close> block is caught by its own \<open>catch\<close> and rethrown with a prefixed message.
\<close>

definition validateConfiguration :: "platform \<Rightarrow> WordPressConfig \<Rightarrow> WordPressAuthError option" where
  "validateConfiguration P cfg =
     (let validation = validateSecurity P cfg
      in if \<not> isSecure validation
         then Some \<lparr>type = INVALID_URL,
                    message = js ''Security validation failed: ''
                              @ Array_join (js '', '') (issues validation),
                    httpStatus = None\<rparr>
         else (case new_URL P (site_url cfg) of
                 Inl msg \<Rightarrow>
                   Some \<lparr>type = INVALID_URL,
                         message = js ''Invalid WordPress site URL: '' @ msg,
                         httpStatus = None\<rparr>
               | Inr url \<Rightarrow>
                   if protocol url \<noteq> js ''https:''
                   then Some \<lparr>type = INVALID_URL,
                              message = js ''Invalid WordPress site URL: ''
                                @ js ''WordPress site URL must use HTTPS for security'',
                              httpStatus = None\<rparr>
                   else if \<not> isValidApplicationPassword (app_password cfg)
                   then Some \<lparr>type = INVALID_CREDENTIALS,
                              message = js ''Application password format is invalid. Should be in format: xxxx xxxx xxxx xxxx xxxx xxxx'',
                              httpStatus = None\<rparr>
                   else None))"

text \<open>The constructor: the instance, or the error thrown by the validation.\<close>

definition new_WordPressAuthenticationManager ::
    "platform \<Rightarrow> WordPressConfig \<Rightarrow> WordPressAuthError + WordPressAuthenticationManager" where
  "new_WordPressAuthenticationManager P cfg =
     (case validateConfiguration P cfg of
        Some e \<Rightarrow> Inl e
      | None \<Rightarrow>
          Inr \<lparr>authState = \<lparr>isAuthenticatedFlag = False, lastVerified = None, credentials = None\<rparr>,
               auth_config = cfg,
               lastAuthCheck = None\<rparr>)"

definition generateAuthHeader :: "platform \<Rightarrow> WordPressAuthenticationManager \<Rightarrow> js_string option" where
  "generateAuthHeader P m =
     (case Buffer_base64 P (username (auth_config m) @ js '':'' @ app_password (auth_config m)) of
        None \<Rightarrow> None
      | Some encoded \<Rightarrow> Some (js ''Basic '' @ encoded))"

text \<open>\<open>authenticate()\<close> at clock reading \<open>now\<close>; the \<open>catch\<close> branch is the \<open>None\<close> case.\<close>

definition authenticate ::
    "platform \<Rightarrow> WordPressAuthenticationManager \<Rightarrow> int
       \<Rightarrow> (WordPressAuthError + unit) \<times> WordPressAuthenticationManager" where
  "authenticate P m now =
     (case generateAuthHeader P m of
        Some authHeader \<Rightarrow>
          (Inr (),
           m\<lparr>authState :=
                \<lparr>isAuthenticatedFlag = True,
                 lastVerified = Some now,
                 credentials = Some \<lparr>cred_username = username (auth_config m),
                                     cred_password = String_replace authHeader (js ''Basic '') []\<rparr>\<rparr>,
              lastAuthCheck := Some now\<rparr>)
      | None \<Rightarrow>
          (Inl \<lparr>type = INVALID_CREDENTIALS,
                message = js ''Failed to set up authentication'',
                httpStatus = None\<rparr>,
           m\<lparr>authState :=
                \<lparr>isAuthenticatedFlag = False, lastVerified = None, credentials = None\<rparr>\<rparr>))"

definition isAuthenticated :: "WordPressAuthenticationManager \<Rightarrow> int \<Rightarrow> bool" where
  "isAuthenticated m now =
     (if \<not> isAuthenticatedFlag (authState m) then False
      else if (case lastAuthCheck m of
                 None \<Rightarrow> False
               | Some checked \<Rightarrow> now - checked < AUTH_CACHE_DURATION) then True
      else isAuthenticatedFlag (authState m))"

definition getAuthorizationHeader :: "WordPressAuthenticationManager \<Rightarrow> WordPressAuthError + js_string" where
  "getAuthorizationHeader m =
     (case credentials (authState m) of
        None \<Rightarrow> Inl \<lparr>type = UNAUTHORIZED,
                     message = js ''No authentication credentials available'',
                     httpStatus = None\<rparr>
      | Some c \<Rightarrow> Inr (js ''Basic '' @ cred_password c))"

definition invalidateAuth :: "WordPressAuthenticationManager \<Rightarrow> WordPressAuthenticationManager" where
  "invalidateAuth m =
     m\<lparr>authState := \<lparr>isAuthenticatedFlag = False, lastVerified = None, credentials = None\<rparr>,
       lastAuthCheck := None\<rparr>"

definition needsReAuth :: "WordPressAuthenticationManager \<Rightarrow> int \<Rightarrow> bool" where
  "needsReAuth m now =
     (if \<not> isAuthenticatedFlag (authState m) then True
      else (case lastAuthCheck m of
              None \<Rightarrow> True
            | Some checked \<Rightarrow> now - checked > AUTH_CACHE_DURATION))"

text \<open>
  \<open>updateConfig(newConfig)\<close>: the configuration is replaced before it is validated, and
  stays replaced when the validation throws.
\<close>

definition updateConfig ::
    "platform \<Rightarrow> WordPressAuthenticationManager \<Rightarrow> WordPressConfig \<Rightarrow> int
       \<Rightarrow> (WordPressAuthError + unit) \<times> WordPressAuthenticationManager" where
  "updateConfig P m newConfig now =
     (let m1 = m\<lparr>auth_config := newConfig\<rparr>
      in case validateConfiguration P newConfig of
           Some e \<Rightarrow> (Inl e, m1)
         | None \<Rightarrow> authenticate P m1 now)"

text \<open>
  \<open>sanitizeErrorMessage(error)\<close> on the error's message; \<open>None\<close> when one of the two
  run-time patterns does not compile.
\<close>

definition sanitizeErrorMessage ::
    "platform \<Rightarrow> WordPressAuthenticationManager \<Rightarrow> js_string \<Rightarrow> js_string option" where
  "sanitizeErrorMessage P m msg =
     (case RegExp_gi_replace P (username (auth_config m)) msg (js ''[USERNAME]'') of
        None \<Rightarrow> None
      | Some msg1 \<Rightarrow>
          (case RegExp_gi_replace P (app_password (auth_config m)) msg1 (js ''[PASSWORD]'') of
             None \<Rightarrow> None
           | Some msg2 \<Rightarrow> Some (replace_Basic msg2)))"

section \<open>HTTP client (http-client.ts)\<close>

text \<open>
  What the HTTP library hands to the response interceptor.  A response carries its
  status and \<open>data?.message\<close> (absent when the body has no such field); an error carries
  \<open>error.response\<close>, \<open>error.code\<close> and \<open>error.message\<close>, each possibly absent.
\<close>

record AxiosResponse =
  status :: nat
  data_message :: "js_string option"

record AxiosError =
  response :: "AxiosResponse option"
  code :: "js_string option"
  error_message :: js_string

datatype settled = Resolved AxiosResponse | Rejected AxiosError

text \<open>What a handler throws: a classified error, or the \<open>SyntaxError\<close> of the platform.\<close>

datatype thrown = AuthError WordPressAuthError | SyntaxError

record WordPressHttpClient =
  authManager :: WordPressAuthenticationManager
  rateLimiter :: "RateLimiter option"
  retryCount :: nat

definition new_WordPressHttpClient :: "WordPressAuthenticationManager \<Rightarrow> WordPressHttpClient" where
  "new_WordPressHttpClient m =
     \<lparr>authManager = m,
      rateLimiter =
        (case rate_limit (auth_config m) of
           None \<Rightarrow> None
         | Some policy \<Rightarrow>
             Some (new_RateLimiter
                     \<lparr>requests_per_minute = requests_per_minute policy,
                      burst_limit = burst_limit policy,
                      window_ms = 60000\<rparr>)),
      retryCount = 0\<rparr>"

text \<open>
  The request interceptor at clock reading \<open>now\<close>: the \<open>Authorization\<close> header it
  attaches, or the error it throws.  Its rejected handler, \<open>handleRequestError\<close>, stands
  first in the chain of handlers, where no rejection can reach it, and is left out.
\<close>

definition requestInterceptor ::
    "platform \<Rightarrow> WordPressHttpClient \<Rightarrow> int
       \<Rightarrow> (WordPressAuthError + js_string) \<times> WordPressHttpClient" where
  "requestInterceptor P c now =
     (case (case rateLimiter c of
              None \<Rightarrow> (Inr (), c)
            | Some rl \<Rightarrow>
                (case checkLimit rl now of (r, rl') \<Rightarrow> (r, c\<lparr>rateLimiter := Some rl'\<rparr>))) of
        (Inl e, c1) \<Rightarrow> (Inl e, c1)
      | (Inr _, c1) \<Rightarrow>
          (case (if \<not> isAuthenticated (authManager c1) now
                 then authenticate P (authManager c1) now
                 else (Inr (), authManager c1)) of
             (Inl e, m) \<Rightarrow> (Inl e, c1\<lparr>authManager := m\<rparr>)
           | (Inr _, m) \<Rightarrow> (getAuthorizationHeader m, c1\<lparr>authManager := m\<rparr>)))"

text \<open>\<open>value || fallback\<close> on an optional string: absent and empty are both falsy.\<close>

definition or_default :: "js_string option \<Rightarrow> js_string \<Rightarrow> js_string" where
  "or_default v fallback = (case v of None \<Rightarrow> fallback | Some s \<Rightarrow> if s = [] then fallback else s)"

text \<open>
  \<open>handleResponseError(error)\<close> either throws or, on the retry path, returns the promise
  of the resubmitted request; the resubmission itself is made by \<open>request\<close> below.
\<close>

datatype handled = Rethrow thrown | Resubmit

definition handleResponseError ::
    "platform \<Rightarrow> WordPressHttpClient \<Rightarrow> int \<Rightarrow> AxiosError \<Rightarrow> handled \<times> WordPressHttpClient" where
  "handleResponseError P c now error =
     (let status = map_option status (response error);
          data_msg = (case response error of None \<Rightarrow> None | Some r \<Rightarrow> data_message r)
      in if status = Some 401 then
           (let c1 = c\<lparr>authManager := invalidateAuth (authManager c)\<rparr>
            in if retryCount c1 < 1 then
                 (let c2 = c1\<lparr>retryCount := retryCount c1 + 1\<rparr>
                  in case authenticate P (authManager c2) now of
                       (Inr _, m) \<Rightarrow> (Resubmit, c2\<lparr>authManager := m\<rparr>)
                     | (Inl _, m) \<Rightarrow>
                         (Rethrow (AuthError
                            \<lparr>type = INVALID_CREDENTIALS,
                             message = js ''Authentication failed. Please check your username and application password.'',
                             httpStatus = Some 401\<rparr>),
                          c2\<lparr>authManager := m\<rparr>))
               else (Rethrow (AuthError
                        \<lparr>type = UNAUTHORIZED,
                         message = js ''Invalid credentials or expired authentication'',
                         httpStatus = Some 401\<rparr>), c1))
         else if status = Some 403 then
           (Rethrow (AuthError
              \<lparr>type = FORBIDDEN,
               message = or_default data_msg (js ''Access forbidden. Check user permissions.''),
               httpStatus = Some 403\<rparr>), c)
         else if status = Some 429 then
           (Rethrow (AuthError
              \<lparr>type = RATE_LIMITED,
               message = js ''Rate limit exceeded by WordPress server'',
               httpStatus = Some 429\<rparr>), c)
         else if code error = Some (js ''ECONNABORTED'') \<or> code error = Some (js ''ETIMEDOUT'') then
           (Rethrow (AuthError
              \<lparr>type = TIMEOUT, message = js ''Request timed out'', httpStatus = None\<rparr>), c)
         else if code error = Some (js ''CERT_HAS_EXPIRED'')
                 \<or> code error = Some (js ''UNABLE_TO_VERIFY_LEAF_SIGNATURE'') then
           (Rethrow (AuthError
              \<lparr>type = SSL_ERROR,
               message = js ''SSL certificate error. Check your WordPress site's SSL configuration.'',
               httpStatus = None\<rparr>), c)
         else if (case status of None \<Rightarrow> False | Some s \<Rightarrow> s \<noteq> 0 \<and> s \<ge> 500) then
           (Rethrow (AuthError
              \<lparr>type = NETWORK_ERROR,
               message = js ''WordPress server error ('' @ Number_toString (int (the status))
                         @ js ''): '' @ or_default data_msg (js ''Internal server error''),
               httpStatus = status\<rparr>), c)
         else if (case status of None \<Rightarrow> False | Some s \<Rightarrow> s \<noteq> 0 \<and> s \<ge> 400) then
           (Rethrow (AuthError
              \<lparr>type = UNKNOWN_ERROR,
               message = js ''WordPress API error ('' @ Number_toString (int (the status))
                         @ js ''): '' @ or_default data_msg (js ''Bad request''),
               httpStatus = status\<rparr>), c)
         else (case sanitizeErrorMessage P (authManager c) (error_message error) of
                 None \<Rightarrow> (Rethrow SyntaxError, c)
               | Some msg \<Rightarrow>
                   (Rethrow (AuthError
                      \<lparr>type = UNKNOWN_ERROR, message = msg, httpStatus = status\<rparr>), c)))"

text \<open>
  The response interceptor at clock reading \<open>now\<close>: a response is passed through after
  the retry counter is reset, an error goes to \<open>handleResponseError\<close>.
\<close>

definition responseInterceptor ::
    "platform \<Rightarrow> WordPressHttpClient \<Rightarrow> int \<Rightarrow> settled
       \<Rightarrow> (AxiosResponse + handled) \<times> WordPressHttpClient" where
  "responseInterceptor P c now s =
     (case s of
        Resolved r \<Rightarrow> (Inl r, c\<lparr>retryCount := 0\<rparr>)
      | Rejected err \<Rightarrow> (case handleResponseError P c now err of (h, c') \<Rightarrow> (Inr h, c')))"

text \<open>
  One pass of a request up to the response interceptor.  The script lists what the HTTP
  library will settle the next dispatches with, each with the clock reading at that
  moment.  The library chains the handlers as \<open>promise.then(fulfilled, rejected)\<close>: an
  error thrown by the request interceptor skips the dispatch and reaches the rejected
  handler of the response interceptor, as an error object with neither \<open>response\<close> nor
  \<open>code\<close>.  With nothing left in the script the request stays pending.
\<close>

definition deliver ::
    "platform \<Rightarrow> WordPressHttpClient \<Rightarrow> int \<Rightarrow> (int \<times> settled) list
       \<Rightarrow> (int \<times> settled \<times> (int \<times> settled) list) option \<times> WordPressHttpClient" where
  "deliver P c now script =
     (case requestInterceptor P c now of
        (Inl e, c1) \<Rightarrow>
          (Some (now, Rejected \<lparr>response = None, code = None, error_message = message e\<rparr>, script), c1)
      | (Inr header, c1) \<Rightarrow>
          (case script of
             [] \<Rightarrow> (None, c1)
           | (t, s) # rest \<Rightarrow> (Some (t, s, rest), c1)))"

datatype outcome = Returned AxiosResponse | Threw thrown | Pending

text \<open>
  \<open>axiosInstance.request(config)\<close> at clock reading \<open>now\<close>: the outcome seen by the caller,
  the client afterwards, the unused rest of the script, and the number of times the
  request was resubmitted.
\<close>

function request ::
    "platform \<Rightarrow> WordPressHttpClient \<Rightarrow> int \<Rightarrow> (int \<times> settled) list
       \<Rightarrow> outcome \<times> WordPressHttpClient \<times> (int \<times> settled) list \<times> nat" where
  "request P c now script =
     (case deliver P c now script of
        (None, c1) \<Rightarrow> (Pending, c1, [], 0)
      | (Some (t, s, rest), c1) \<Rightarrow>
          (case responseInterceptor P c1 t s of
             (Inl r, c2) \<Rightarrow> (Returned r, c2, rest, 0)
           | (Inr (Rethrow x), c2) \<Rightarrow> (Threw x, c2, rest, 0)
           | (Inr Resubmit, c2) \<Rightarrow>
               (case request P c2 t rest of
                  (out, c3, rest', n) \<Rightarrow> (out, c3, rest', Suc n))))"
  by pat_completeness auto
termination
proof (relation "measure (\<lambda>(P, c, now, script). 1 - retryCount c)")
  show "wf (measure (\<lambda>(P, c, now, script). 1 - retryCount c))"
    by simp
next
  fix P c now script x1 c1 x2 t x3 s rest x5 c2 x6 h
  assume d: "(x1, c1) = deliver P c now script"
    and "x1 = Some x2" and "(t, x3) = x2" and "(s, rest) = x3"
    and r: "(x5, c2) = responseInterceptor P c1 t s"
    and "x5 = Inr x6" and "x6 = Resubmit"
  have same: "retryCount c1 = retryCount c"
    using d by (auto simp add: deliver_def requestInterceptor_def
        split: prod.splits sum.splits option.splits list.splits if_splits)
  have "retryCount c1 < 1 \<and> retryCount c2 = retryCount c1 + 1"
    using r \<open>x5 = Inr x6\<close> \<open>x6 = Resubmit\<close>
    by (auto simp add: responseInterceptor_def handleResponseError_def Let_def
        split: settled.splits prod.splits sum.splits option.splits if_splits)
  with same show "((P, c2, t, rest), P, c, now, script) \<in> measure (\<lambda>(P, c, now, script). 1 - retryCount c)"
    by simp
qed

declare request.simps [simp del]

text \<open>
  The two interceptors as they run on one client for any number of requests, in flight
  together or one after the other: a request interceptor runs when a request is sent, the
  response interceptor when a dispatch settles.  \<open>resubmissions\<close> counts the requests
  that the response interceptor resubmits along such a sequence.
\<close>

datatype event = Sent int | Arrived int settled

fun resubmissions :: "platform \<Rightarrow> WordPressHttpClient \<Rightarrow> event list \<Rightarrow> nat" where
  "resubmissions P c [] = 0"
| "resubmissions P c (Sent t # evs) = resubmissions P (snd (requestInterceptor P c t)) evs"
| "resubmissions P c (Arrived t s # evs) =
     (case responseInterceptor P c t s of
        (r, c') \<Rightarrow> (if r = Inr Resubmit then 1 else 0) + resubmissions P c' evs)"

fun succeeded :: "event \<Rightarrow> bool" where
  "succeeded (Arrived t (Resolved r)) = True"
| "succeeded _ = False"

text \<open>The public methods of the authentication manager that change its state.\<close>

datatype call = Call_authenticate | Call_updateConfig WordPressConfig | Call_invalidateAuth

fun calls ::
    "platform \<Rightarrow> WordPressAuthenticationManager \<Rightarrow> (int \<times> call) list
       \<Rightarrow> WordPressAuthenticationManager" where
  "calls P m [] = m"
| "calls P m ((now, Call_authenticate) # cs) = calls P (snd (authenticate P m now)) cs"
| "calls P m ((now, Call_updateConfig newConfig) # cs) =
     calls P (snd (updateConfig P m newConfig now)) cs"
| "calls P m ((now, Call_invalidateAuth) # cs) = calls P (invalidateAuth m) cs"

text \<open>\<open>s.includes(sub)\<close>.\<close>

fun String_includes :: "js_string \<Rightarrow> js_string \<Rightarrow> bool" where
  "String_includes [] sub = (sub = [])"
| "String_includes (c # cs) sub = (take (length sub) (c # cs) = sub \<or> String_includes cs sub)"

section \<open>A concrete platform and configuration\<close>

text \<open>
  The platform functions at the inputs used below: the URL parser on two URLs (anything
  else is taken as unparsable), an encoder that is Base64 on \<open>admin:abcd efgh ijkl mnop
  qrst uvwx\<close>, and a pattern replacement that leaves texts without a match unchanged.
\<close>

definition example_platform :: platform where
  "example_platform =
     \<lparr>new_URL = (\<lambda>s.
         if s = js ''https://example.com''
         then Inr \<lparr>protocol = js ''https:'', hostname = js ''example.com''\<rparr>
         else if s = js ''http://example.com''
         then Inr \<lparr>protocol = js ''http:'', hostname = js ''example.com''\<rparr>
         else Inl (js ''Invalid URL'')),
      Buffer_base64 = (\<lambda>s. Some (js ''YWRtaW46YWJjZCBlZmdoIGlqa2wgbW5vcCBxcnN0IHV2d3g='')),
      RegExp_gi_replace = (\<lambda>pattern text replacement. Some text)\<rparr>"

definition example_config :: WordPressConfig where
  "example_config =
     \<lparr>site_url = js ''https://example.com'',
      username = js ''admin'',
      app_password = js ''abcd efgh ijkl mnop qrst uvwx'',
      verify_ssl = True,
      timeout = 30000,
      rate_limit = None\<rparr>"

definition example_limit :: RateLimitConfig where
  "example_limit = \<lparr>requests_per_minute = 2, burst_limit = 10, window_ms = 60000\<rparr>"

definition example_manager :: WordPressAuthenticationManager where
  "example_manager =
     \<lparr>authState = \<lparr>isAuthenticatedFlag = False, lastVerified = None, credentials = None\<rparr>,
      auth_config = example_config, lastAuthCheck = None\<rparr>"

definition example_client :: WordPressHttpClient where
  "example_client = new_WordPressHttpClient example_manager"

text \<open>Settlements as the HTTP library reports them for the statuses 401, 403, 404 and 200.\<close>

definition response_401 :: AxiosError where
  "response_401 =
     \<lparr>response = Some \<lparr>status = 401, data_message = Some (js ''Sorry, you are not allowed to do that.'')\<rparr>,
      code = Some (js ''ERR_BAD_REQUEST''),
      error_message = js ''Request failed with status code 401''\<rparr>"

definition response_403 :: AxiosError where
  "response_403 =
     \<lparr>response = Some \<lparr>status = 403,
         data_message = Some (js ''Rejected abcd efgh ijkl mnop qrst uvwx (Basic YWRtaW46YWJjZA==)'')\<rparr>,
      code = Some (js ''ERR_BAD_REQUEST''),
      error_message = js ''Request failed with status code 403''\<rparr>"

definition response_404 :: AxiosError where
  "response_404 =
     \<lparr>response = Some \<lparr>status = 404, data_message = Some (js ''No route was found.'')\<rparr>,
      code = Some (js ''ERR_BAD_REQUEST''),
      error_message = js ''Request failed with status code 404''\<rparr>"

text \<open>A transport failure: no response, and a code that the handler does not single out.\<close>

definition connection_refused :: AxiosError where
  "connection_refused =
     \<lparr>response = None,
      code = Some (js ''ECONNREFUSED''),
      error_message = js ''connect ECONNREFUSED 203.0.113.7:443''\<rparr>"

definition response_200 :: AxiosResponse where
  "response_200 = \<lparr>status = 200, data_message = None\<rparr>"

text \<open>The error thrown for a 401 that is not retried.\<close>

definition unauthorized :: thrown where
  "unauthorized =
     AuthError \<lparr>type = UNAUTHORIZED,
                message = js ''Invalid credentials or expired authentication'',
                httpStatus = Some 401\<rparr>"

text \<open>The message of the body of \<open>response_403\<close>.\<close>

definition leaked :: js_string where
  "leaked = js ''Rejected abcd efgh ijkl mnop qrst uvwx (Basic YWRtaW46YWJjZA==)''"

section \<open>Properties of the rate limiter\<close>


lemma Math_ceil_div_int: "Math_ceil_div x 1000 = - ((- x) div 1000)"
  using ceiling_divide_eq_div[of x 1000] by (simp add: Math_ceil_div_def)

lemma checkLimit_admit:
  "int (length (filter (\<lambda>time. now - window_ms (config rl) < time) (requests rl))) < requests_per_minute (config rl) \<Longrightarrow>
   checkLimit rl now = (Inr (), rl\<lparr>requests := filter (\<lambda>time. now - window_ms (config rl) < time) (requests rl) @ [now]\<rparr>)"
  by (simp add: checkLimit_def Let_def)

lemma checkLimit_reject:
  "requests_per_minute (config rl) \<le> int (length (filter (\<lambda>time. now - window_ms (config rl) < time) (requests rl))) \<Longrightarrow>
   checkLimit rl now =
     (Inl \<lparr>type = RATE_LIMITED,
           message = js ''Rate limit exceeded. Please wait ''
              @ waitSeconds (rl\<lparr>requests := filter (\<lambda>time. now - window_ms (config rl) < time) (requests rl)\<rparr>) now
              @ js '' seconds.'',
           httpStatus = None\<rparr>,
      rl\<lparr>requests := filter (\<lambda>time. now - window_ms (config rl) < time) (requests rl)\<rparr>)"
  by (simp add: checkLimit_def Let_def)

lemma admitted_append:
  "sorted (xs @ ts) \<Longrightarrow> \<forall>t \<in> set (xs @ ts). last (xs @ ts) - window_ms cfg < t \<Longrightarrow>
   int (length (xs @ ts)) \<le> requests_per_minute cfg \<Longrightarrow>
   admitted \<lparr>requests = xs, config = cfg\<rparr> ts = Some \<lparr>requests = xs @ ts, config = cfg\<rparr>"
proof (induction ts arbitrary: xs)
  case Nil
  then show ?case by simp
next
  case (Cons t ts)
  have le: "t \<le> last (xs @ t # ts)"
    using Cons.prems(1) by (cases ts) (auto simp: sorted_append)
  have keep: "filter (\<lambda>time. t - window_ms cfg < time) xs = xs"
  proof -
    have "\<forall>x\<in>set xs. t - window_ms cfg < x"
    proof
      fix x assume "x \<in> set xs"
      with Cons.prems(2) have "last (xs @ t # ts) - window_ms cfg < x" by simp
      with le show "t - window_ms cfg < x" by linarith
    qed
    then show ?thesis by (rule filter_True)
  qed
  have room: "int (length xs) < requests_per_minute cfg"
    using Cons.prems(3) by simp
  have step: "checkLimit \<lparr>requests = xs, config = cfg\<rparr> t = (Inr (), \<lparr>requests = xs @ [t], config = cfg\<rparr>)"
    using checkLimit_admit[of t "\<lparr>requests = xs, config = cfg\<rparr>"] keep room by simp
  have "admitted \<lparr>requests = xs @ [t], config = cfg\<rparr> ts = Some \<lparr>requests = (xs @ [t]) @ ts, config = cfg\<rparr>"
    using Cons.prems by (intro Cons.IH) simp_all
  with step show ?case by simp
qed



lemma checkLimit_config: "config (snd (checkLimit rl now)) = config rl"
  by (simp add: checkLimit_def Let_def)

lemma checkLimit_requests:
  "requests (snd (checkLimit rl now)) =
     filter (\<lambda>time. now - window_ms (config rl) < time) (requests rl)
     @ (case fst (checkLimit rl now) of Inl _ \<Rightarrow> [] | Inr _ \<Rightarrow> [now])"
  by (simp add: checkLimit_def Let_def)

lemma checkLimit_admits_iff:
  "(fst (checkLimit rl now) = Inr ()) =
     (int (length (filter (\<lambda>time. now - window_ms (config rl) < time) (requests rl)))
        < requests_per_minute (config rl))"
  by (simp add: checkLimit_def Let_def)

lemma checkLimit_Inl_type: "fst (checkLimit rl now) = Inl e \<Longrightarrow> type e = RATE_LIMITED"
  by (auto simp add: checkLimit_def Let_def split: if_splits)

text \<open>
  Claim C4.  Take a fresh limiter with limit \<open>N > 0\<close> and \<open>N\<close> checks at the
  non-decreasing clock readings \<open>ts\<close>.  All of them are admitted.  A further check at a
  reading \<open>now\<close> at which the first of them is still inside the window is rejected with
  a \<open>RATE_LIMITED\<close> error whose message names \<open>ceil((hd ts + window - now) / 1000)\<close>
  seconds, the time until the oldest recorded entry leaves the window.  A check made once
  the window has elapsed since the last of the \<open>N\<close> requests is admitted again.
\<close>

theorem rate_limit_window:
  assumes "ts \<noteq> []" and "sorted ts" and "last ts \<le> now"
    and "now - window_ms cfg < hd ts"
    and "requests_per_minute cfg = int (length ts)"
  shows "admitted (new_RateLimiter cfg) ts = Some \<lparr>requests = ts, config = cfg\<rparr>
       \<and> fst (checkLimit \<lparr>requests = ts, config = cfg\<rparr> now)
           = Inl \<lparr>type = RATE_LIMITED,
                  message = js ''Rate limit exceeded. Please wait ''
                    @ Number_toString \<lceil>real_of_int (hd ts + window_ms cfg - now) / 1000\<rceil>
                    @ js '' seconds.'',
                  httpStatus = None\<rparr>
       \<and> (\<forall>later. last ts + window_ms cfg \<le> later \<longrightarrow>
             fst (checkLimit (snd (checkLimit \<lparr>requests = ts, config = cfg\<rparr> now)) later) = Inr ())"
proof -
  let ?W = "window_ms cfg"
  let ?rl = "\<lparr>requests = ts, config = cfg\<rparr>"
  have hd_le: "\<forall>t \<in> set ts. hd ts \<le> t"
    using assms(1,2) by (cases ts) auto
  have le_last: "\<forall>t \<in> set ts. t \<le> last ts"
    using assms(2) by (induction ts) (auto split: if_splits)
  have within: "\<forall>t \<in> set ts. last ts - ?W < t"
    using hd_le assms(3,4) by fastforce
  have run: "admitted (new_RateLimiter cfg) ts = Some ?rl"
    using admitted_append[of "[]" ts cfg] assms(2,5) within
    by (simp add: new_RateLimiter_def)
  have keep: "filter (\<lambda>time. now - ?W < time) ts = ts"
    using hd_le assms(4) by (intro filter_True) fastforce
  obtain t0 rest where ts: "ts = t0 # rest"
    using assms(1) by (cases ts) auto
  have wait: "waitSeconds ?rl now = Number_toString \<lceil>real_of_int (hd ts + ?W - now) / 1000\<rceil>"
    by (simp add: waitSeconds_def ts Math_ceil_div_def algebra_simps)
  have rej: "checkLimit ?rl now =
      (Inl \<lparr>type = RATE_LIMITED,
            message = js ''Rate limit exceeded. Please wait ''
              @ Number_toString \<lceil>real_of_int (hd ts + ?W - now) / 1000\<rceil> @ js '' seconds.'',
            httpStatus = None\<rparr>, ?rl)"
    using checkLimit_reject[of ?rl now] keep assms(5) wait by simp
  have later: "fst (checkLimit ?rl later) = Inr ()" if "last ts + ?W \<le> later" for later
  proof -
    have "filter (\<lambda>time. later - ?W < time) ts = []"
      using le_last that by (auto simp: filter_empty_conv)
    then show ?thesis
      using assms(1,5) by (simp add: checkLimit_admits_iff)
  qed
  show ?thesis
    using run rej later by simp
qed

theorem rate_limit_window_witness:
  "admitted (new_RateLimiter example_limit) [1000, 2000] = Some \<lparr>requests = [1000, 2000], config = example_limit\<rparr>
   \<and> fst (checkLimit \<lparr>requests = [1000, 2000], config = example_limit\<rparr> 2500)
       = Inl \<lparr>type = RATE_LIMITED,
              message = js ''Rate limit exceeded. Please wait 59 seconds.'',
              httpStatus = None\<rparr>
   \<and> fst (checkLimit (snd (checkLimit \<lparr>requests = [1000, 2000], config = example_limit\<rparr> 2500)) 62000) = Inr ()"
  using rate_limit_window[of "[1000, 2000]" 2500 example_limit]
  by (simp add: example_limit_def Number_toString_def js_def)

text \<open>
  Claim C8.  With a window that is not negative, after a check at \<open>now\<close>, admitted or
  rejected, no stored timestamp is older than \<open>now - window\<close>: the stored sequence is the
  pruned one, followed by \<open>now\<close> exactly when the check was admitted.
\<close>

theorem checkLimit_prunes:
  assumes "0 \<le> window_ms (config rl)"
  shows "(\<forall>t \<in> set (requests (snd (checkLimit rl now))).
            \<not> t < now - window_ms (config (snd (checkLimit rl now))))
       \<and> requests (snd (checkLimit rl now)) =
           filter (\<lambda>time. now - window_ms (config rl) < time) (requests rl)
           @ (case fst (checkLimit rl now) of Inl _ \<Rightarrow> [] | Inr _ \<Rightarrow> [now])"
  using assms by (auto simp add: checkLimit_def Let_def)

theorem checkLimit_prunes_witness:
  "0 \<le> window_ms (config \<lparr>requests = [1000, 2000, 70000], config = example_limit\<rparr>)
   \<and> requests (snd (checkLimit \<lparr>requests = [1000, 2000, 70000], config = example_limit\<rparr> 70500))
       = [70000, 70500]
   \<and> \<not> 70000 < 70500 - window_ms example_limit"
  using checkLimit_prunes[of "\<lparr>requests = [1000, 2000, 70000], config = example_limit\<rparr>" 70500]
  by (simp add: example_limit_def checkLimit_def Let_def)

text \<open>
  Claim C10.  A rejected check throws \<open>RATE_LIMITED\<close> and stores only the pruned
  sequence: nothing is appended, the stored timestamps are among those stored before, a
  check that would have been admitted without the rejected one is still admitted after
  it, and from \<open>now\<close> on every check behaves as if the rejected one had not been made.
\<close>

theorem checkLimit_reject_keeps_budget:
  assumes "fst (checkLimit rl now) = Inl e"
  shows "type e = RATE_LIMITED
       \<and> requests (snd (checkLimit rl now)) =
           filter (\<lambda>time. now - window_ms (config rl) < time) (requests rl)
       \<and> set (requests (snd (checkLimit rl now))) \<subseteq> set (requests rl)
       \<and> length (requests (snd (checkLimit rl now))) \<le> length (requests rl)
       \<and> (\<forall>later. fst (checkLimit rl later) = Inr ()
             \<longrightarrow> fst (checkLimit (snd (checkLimit rl now)) later) = Inr ())
       \<and> (\<forall>later. now \<le> later
             \<longrightarrow> checkLimit (snd (checkLimit rl now)) later = checkLimit rl later)"
proof -
  let ?kept = "filter (\<lambda>time. now - window_ms (config rl) < time) (requests rl)"
  have rl': "snd (checkLimit rl now) = rl\<lparr>requests := ?kept\<rparr>"
    using assms by (auto simp add: checkLimit_def Let_def split: if_splits)
  have swap: "filter P (filter Q xs) = filter Q (filter P xs)" for P Q and xs :: "int list"
    by (induction xs) auto
  have mono: "length (filter P ?kept) \<le> length (filter P (requests rl))" for P
  proof -
    have "length (filter (\<lambda>time. now - window_ms (config rl) < time) (filter P (requests rl)))
            \<le> length (filter P (requests rl))"
      by (rule length_filter_le)
    then show ?thesis
      by (simp only: swap[of P])
  qed
  have same: "filter (\<lambda>time. later - window_ms (config rl) < time) ?kept
      = filter (\<lambda>time. later - window_ms (config rl) < time) (requests rl)" if "now \<le> later" for later
    using that by (auto intro: filter_cong)
  have c1: "type e = RATE_LIMITED"
    using assms by (rule checkLimit_Inl_type)
  have c2: "requests (snd (checkLimit rl now)) = ?kept"
    by (simp add: rl')
  have c5: "fst (checkLimit (snd (checkLimit rl now)) later) = Inr ()"
    if "fst (checkLimit rl later) = Inr ()" for later
    using that mono[of "\<lambda>time. later - window_ms (config rl) < time"]
    by (simp add: checkLimit_admits_iff rl')
  have c6: "checkLimit (snd (checkLimit rl now)) later = checkLimit rl later" if "now \<le> later" for later
  proof -
    have "checkLimit (rl\<lparr>requests := ?kept\<rparr>) later = checkLimit rl later"
      unfolding checkLimit_def Let_def waitSeconds_def
      by (simp add: same[OF that] del: filter_filter cong: list.case_cong)
    then show ?thesis
      by (simp only: rl')
  qed
  show ?thesis
    using c1 c2 c5 c6 by simp
qed

theorem checkLimit_reject_keeps_budget_witness:
  "fst (checkLimit \<lparr>requests = [1000, 2000], config = example_limit\<rparr> 2500)
     = Inl \<lparr>type = RATE_LIMITED, message = js ''Rate limit exceeded. Please wait 59 seconds.'', httpStatus = None\<rparr>
   \<and> requests (snd (checkLimit \<lparr>requests = [1000, 2000], config = example_limit\<rparr> 2500)) = [1000, 2000]
   \<and> checkLimit (snd (checkLimit \<lparr>requests = [1000, 2000], config = example_limit\<rparr> 2500)) 61000
       = checkLimit \<lparr>requests = [1000, 2000], config = example_limit\<rparr> 61000"
proof -
  have rej: "fst (checkLimit \<lparr>requests = [1000, 2000], config = example_limit\<rparr> 2500)
     = Inl \<lparr>type = RATE_LIMITED, message = js ''Rate limit exceeded. Please wait 59 seconds.'', httpStatus = None\<rparr>"
    by (simp add: checkLimit_def Let_def example_limit_def waitSeconds_def Math_ceil_div_def Number_toString_def js_def)
  show ?thesis
    using checkLimit_reject_keeps_budget[OF rej] rej by (simp add: example_limit_def)
qed

section \<open>Properties of the authentication manager\<close>


lemma isAuthenticated_flag: "isAuthenticated m now = isAuthenticatedFlag (authState m)"
  by (simp add: isAuthenticated_def)

lemma authenticate_flag:
  "isAuthenticatedFlag (authState (snd (authenticate P m now))) = (fst (authenticate P m now) = Inr ())"
  by (simp add: authenticate_def split: option.splits)

lemma authenticate_succeeds:
  "\<forall>s. Buffer_base64 P s \<noteq> None \<Longrightarrow> fst (authenticate P m now) = Inr ()"
  by (auto simp add: authenticate_def generateAuthHeader_def split: option.splits)

lemma updateConfig_flag:
  assumes "\<forall>s. Buffer_base64 P s \<noteq> None" and "isAuthenticatedFlag (authState m)"
  shows "isAuthenticatedFlag (authState (snd (updateConfig P m newConfig now)))"
proof (cases "validateConfiguration P newConfig")
  case None
  then show ?thesis
    using authenticate_succeeds[OF assms(1)]
    by (simp add: updateConfig_def Let_def authenticate_flag)
next
  case (Some e)
  then show ?thesis
    using assms(2) by (simp add: updateConfig_def Let_def)
qed

lemma calls_flag:
  assumes "\<forall>s. Buffer_base64 P s \<noteq> None"
  shows "isAuthenticatedFlag (authState m) \<Longrightarrow> Call_invalidateAuth \<notin> snd ` set cs
    \<Longrightarrow> isAuthenticatedFlag (authState (calls P m cs))"
proof (induction cs arbitrary: m)
  case Nil
  then show ?case by simp
next
  case (Cons tc cs)
  obtain t c where tc: "tc = (t, c)" by (cases tc)
  have rest: "Call_invalidateAuth \<notin> snd ` set cs" and c: "c \<noteq> Call_invalidateAuth"
    using Cons.prems(2) tc by auto
  show ?case
  proof (cases c)
    case Call_authenticate
    have "isAuthenticatedFlag (authState (snd (authenticate P m t)))"
      using authenticate_succeeds[OF assms] by (simp add: authenticate_flag)
    then show ?thesis
      using Cons.IH rest tc Call_authenticate by simp
  next
    case (Call_updateConfig newConfig)
    have "isAuthenticatedFlag (authState (snd (updateConfig P m newConfig t)))"
      using updateConfig_flag[OF assms Cons.prems(1)] .
    then show ?thesis
      using Cons.IH rest tc Call_updateConfig by simp
  next
    case Call_invalidateAuth
    with c show ?thesis by simp
  qed
qed

text \<open>
  Claim C5.  With an encoder that does not throw, \<open>authenticate()\<close> succeeds, and after
  it and any further calls of \<open>authenticate()\<close> and \<open>updateConfig()\<close> at any times,
  \<open>isAuthenticated()\<close> is true at every clock reading, also one beyond the five minutes
  of the freshness window; after \<open>invalidateAuth()\<close> it is false.
\<close>

theorem isAuthenticated_until_invalidated:
  assumes "\<forall>s. Buffer_base64 P s \<noteq> None"
    and "Call_invalidateAuth \<notin> snd ` set cs"
  shows "fst (authenticate P m t) = Inr ()
       \<and> isAuthenticated (calls P (snd (authenticate P m t)) cs) now
       \<and> \<not> isAuthenticated (invalidateAuth (calls P (snd (authenticate P m t)) cs)) later"
proof -
  have ok: "fst (authenticate P m t) = Inr ()"
    using assms(1) by (rule authenticate_succeeds)
  then have "isAuthenticatedFlag (authState (snd (authenticate P m t)))"
    by (simp add: authenticate_flag)
  then have "isAuthenticatedFlag (authState (calls P (snd (authenticate P m t)) cs))"
    using assms by (intro calls_flag)
  then show ?thesis
    using ok by (simp add: isAuthenticated_flag invalidateAuth_def)
qed

lemma example_base64: "\<forall>s. Buffer_base64 example_platform s \<noteq> None"
  by (simp add: example_platform_def)

lemma example_constructed:
  "new_WordPressAuthenticationManager example_platform example_config = Inr example_manager"
  by (simp add: new_WordPressAuthenticationManager_def validateConfiguration_def
      validateSecurity_def example_platform_def example_config_def example_manager_def Let_def
      js_def isValidApplicationPassword_def is_whitespace_def is_alnum_def)

theorem isAuthenticated_until_invalidated_witness:
  "fst (authenticate example_platform example_manager 1000) = Inr ()
   \<and> isAuthenticated (calls example_platform (snd (authenticate example_platform example_manager 1000))
         [(2000, Call_authenticate)]) (1000 + 2 * AUTH_CACHE_DURATION)
   \<and> \<not> isAuthenticated (invalidateAuth (calls example_platform
         (snd (authenticate example_platform example_manager 1000)) [(2000, Call_authenticate)]))
         (1000 + 2 * AUTH_CACHE_DURATION)"
  using isAuthenticated_until_invalidated[OF example_base64, of "[(2000, Call_authenticate)]"
      example_manager 1000 "1000 + 2 * AUTH_CACHE_DURATION" "1000 + 2 * AUTH_CACHE_DURATION"]
  by simp



lemma isValidApplicationPassword_iff:
  "isValidApplicationPassword pw \<longleftrightarrow>
     length (filter (\<lambda>c. \<not> is_whitespace c) pw) = 24
     \<and> list_all is_alnum (filter (\<lambda>c. \<not> is_whitespace c) pw)"
  by (auto simp add: isValidApplicationPassword_def Let_def)

lemma validateSecurity_https:
  "isSecure (validateSecurity P cfg) \<longleftrightarrow>
     (case new_URL P (site_url cfg) of Inl _ \<Rightarrow> False | Inr url \<Rightarrow> protocol url = js ''https:'')"
  by (simp add: validateSecurity_def Let_def split: sum.splits)

lemma validateSecurity_issues:
  "issues (validateSecurity P cfg) = [] \<longleftrightarrow> isSecure (validateSecurity P cfg)"
  by (simp add: validateSecurity_def Let_def split: sum.splits)

lemma validateConfiguration_insecure:
  "\<not> isSecure (validateSecurity P cfg) \<Longrightarrow>
     \<exists>e. validateConfiguration P cfg = Some e \<and> type e = INVALID_URL"
  by (simp add: validateConfiguration_def Let_def)

lemma validateConfiguration_secure:
  "isSecure (validateSecurity P cfg) \<Longrightarrow>
     validateConfiguration P cfg =
       (if isValidApplicationPassword (app_password cfg) then None
        else Some \<lparr>type = INVALID_CREDENTIALS,
                   message = js ''Application password format is invalid. Should be in format: xxxx xxxx xxxx xxxx xxxx xxxx'',
                   httpStatus = None\<rparr>)"
  by (auto simp add: validateConfiguration_def Let_def validateSecurity_https split: sum.splits)

text \<open>
  Claim C7.  When the site URL does not parse as a URL whose protocol is \<open>https:\<close>,
  \<open>validateSecurity()\<close> reports \<open>isSecure\<close> false with at least one issue, and the
  constructor throws an \<open>INVALID_URL\<close> error instead of yielding an instance.
\<close>

theorem non_https_url_rejected:
  assumes "\<forall>url. new_URL P (site_url cfg) = Inr url \<longrightarrow> protocol url \<noteq> js ''https:''"
  shows "\<not> isSecure (validateSecurity P cfg)
       \<and> issues (validateSecurity P cfg) \<noteq> []
       \<and> (\<exists>e. new_WordPressAuthenticationManager P cfg = Inl e \<and> type e = INVALID_URL)"
proof -
  have insecure: "\<not> isSecure (validateSecurity P cfg)"
    using assms by (auto simp add: validateSecurity_https split: sum.splits)
  then have "issues (validateSecurity P cfg) \<noteq> []"
    by (simp add: validateSecurity_issues)
  moreover obtain e where "validateConfiguration P cfg = Some e" and "type e = INVALID_URL"
    using validateConfiguration_insecure[OF insecure] by blast
  then have "\<exists>e. new_WordPressAuthenticationManager P cfg = Inl e \<and> type e = INVALID_URL"
    by (simp add: new_WordPressAuthenticationManager_def)
  ultimately show ?thesis
    using insecure by simp
qed

lemmas example_eval =
  example_platform_def example_config_def validateSecurity_def validateConfiguration_def
  new_WordPressAuthenticationManager_def isValidApplicationPassword_def is_whitespace_def
  is_alnum_def Let_def js_def

theorem non_https_url_rejected_witness:
  "new_URL example_platform (js ''http://example.com'')
     = Inr \<lparr>protocol = js ''http:'', hostname = js ''example.com''\<rparr>
   \<and> validateSecurity example_platform (example_config\<lparr>site_url := js ''http://example.com''\<rparr>)
       = \<lparr>isSecure = False, issues = [js ''Site URL must use HTTPS''], warnings = []\<rparr>
   \<and> (\<exists>e. new_WordPressAuthenticationManager example_platform
              (example_config\<lparr>site_url := js ''http://example.com''\<rparr>) = Inl e
          \<and> type e = INVALID_URL)"
proof -
  have hyp: "\<forall>u. new_URL example_platform (site_url (example_config\<lparr>site_url := js ''http://example.com''\<rparr>)) = Inr u
      \<longrightarrow> protocol u \<noteq> js ''https:''"
    by (auto simp add: example_eval)
  have sec: "validateSecurity example_platform (example_config\<lparr>site_url := js ''http://example.com''\<rparr>)
       = \<lparr>isSecure = False, issues = [js ''Site URL must use HTTPS''], warnings = []\<rparr>"
    by (simp add: example_eval)
  have url: "new_URL example_platform (js ''http://example.com'')
     = Inr \<lparr>protocol = js ''http:'', hostname = js ''example.com''\<rparr>"
    by (simp add: example_eval)
  show ?thesis
    using non_https_url_rejected[OF hyp] url sec by blast
qed

text \<open>
  Claim C6.  A password whose form without white space has a length other than 24, or
  holds a code unit that is not alphanumeric, fails the format check, and the validation
  of the configuration fails: the constructor throws.  When the site URL is accepted,
  that is, it parses as an \<open>https:\<close> URL, what the constructor throws is the
  \<open>INVALID_CREDENTIALS\<close> error of the password check.  A password of 24 alphanumeric
  code units, white space apart, passes the check, and with an accepted URL the
  constructor yields the instance.
\<close>

theorem application_password_checked:
  "(length (filter (\<lambda>c. \<not> is_whitespace c) (app_password cfg)) \<noteq> 24
      \<or> \<not> list_all is_alnum (filter (\<lambda>c. \<not> is_whitespace c) (app_password cfg)) \<longrightarrow>
        \<not> isValidApplicationPassword (app_password cfg)
        \<and> (\<exists>e. validateConfiguration P cfg = Some e
               \<and> new_WordPressAuthenticationManager P cfg = Inl e)
        \<and> (new_URL P (site_url cfg) = Inr url \<longrightarrow> protocol url = js ''https:'' \<longrightarrow>
              new_WordPressAuthenticationManager P cfg
                = Inl \<lparr>type = INVALID_CREDENTIALS,
                       message = js ''Application password format is invalid. Should be in format: xxxx xxxx xxxx xxxx xxxx xxxx'',
                       httpStatus = None\<rparr>))
   \<and> (length (filter (\<lambda>c. \<not> is_whitespace c) (app_password cfg)) = 24
      \<and> list_all is_alnum (filter (\<lambda>c. \<not> is_whitespace c) (app_password cfg)) \<longrightarrow>
        isValidApplicationPassword (app_password cfg)
        \<and> (new_URL P (site_url cfg) = Inr url \<longrightarrow> protocol url = js ''https:'' \<longrightarrow>
              validateConfiguration P cfg = None
              \<and> new_WordPressAuthenticationManager P cfg
                  = Inr \<lparr>authState = \<lparr>isAuthenticatedFlag = False, lastVerified = None,
                                       credentials = None\<rparr>,
                         auth_config = cfg, lastAuthCheck = None\<rparr>))"
proof -
  let ?bad = "length (filter (\<lambda>c. \<not> is_whitespace c) (app_password cfg)) \<noteq> 24
      \<or> \<not> list_all is_alnum (filter (\<lambda>c. \<not> is_whitespace c) (app_password cfg))"
  have valid_iff: "isValidApplicationPassword (app_password cfg) \<longleftrightarrow> \<not> ?bad"
    by (auto simp add: isValidApplicationPassword_iff)
  have fails: "\<exists>e. validateConfiguration P cfg = Some e
               \<and> new_WordPressAuthenticationManager P cfg = Inl e" if "?bad"
  proof (cases "isSecure (validateSecurity P cfg)")
    case True
    then show ?thesis
      using validateConfiguration_secure[OF True] that valid_iff
      by (simp add: new_WordPressAuthenticationManager_def)
  next
    case False
    then obtain e where "validateConfiguration P cfg = Some e"
      using validateConfiguration_insecure by blast
    then show ?thesis
      by (simp add: new_WordPressAuthenticationManager_def)
  qed
  have secure: "isSecure (validateSecurity P cfg)"
    if "new_URL P (site_url cfg) = Inr url" "protocol url = js ''https:''"
    using that by (simp add: validateSecurity_https)
  have thrown: "new_WordPressAuthenticationManager P cfg
                = Inl \<lparr>type = INVALID_CREDENTIALS,
                       message = js ''Application password format is invalid. Should be in format: xxxx xxxx xxxx xxxx xxxx xxxx'',
                       httpStatus = None\<rparr>"
    if "?bad" "new_URL P (site_url cfg) = Inr url" "protocol url = js ''https:''"
    using validateConfiguration_secure[OF secure[OF that(2,3)]] that(1) valid_iff
    by (simp add: new_WordPressAuthenticationManager_def)
  have built: "validateConfiguration P cfg = None
              \<and> new_WordPressAuthenticationManager P cfg
                  = Inr \<lparr>authState = \<lparr>isAuthenticatedFlag = False, lastVerified = None,
                                       credentials = None\<rparr>,
                         auth_config = cfg, lastAuthCheck = None\<rparr>"
    if "\<not> ?bad" "new_URL P (site_url cfg) = Inr url" "protocol url = js ''https:''"
    using validateConfiguration_secure[OF secure[OF that(2,3)]] that(1) valid_iff
    by (simp add: new_WordPressAuthenticationManager_def)
  show ?thesis
    using valid_iff fails thrown built by blast
qed

theorem application_password_checked_witness:
  "\<not> isValidApplicationPassword (js ''short'')
   \<and> new_WordPressAuthenticationManager example_platform
         (example_config\<lparr>app_password := js ''short''\<rparr>)
       = Inl \<lparr>type = INVALID_CREDENTIALS,
              message = js ''Application password format is invalid. Should be in format: xxxx xxxx xxxx xxxx xxxx xxxx'',
              httpStatus = None\<rparr>
   \<and> isValidApplicationPassword (app_password example_config)
   \<and> new_WordPressAuthenticationManager example_platform example_config = Inr example_manager"
proof -
  let ?url = "\<lparr>protocol = js ''https:'', hostname = js ''example.com''\<rparr>"
  let ?short = "example_config\<lparr>app_password := js ''short''\<rparr>"
  have url: "new_URL example_platform (site_url example_config) = Inr ?url"
    "new_URL example_platform (site_url ?short) = Inr ?url"
    by (simp_all add: example_eval)
  have https: "protocol ?url = js ''https:''"
    by simp
  have bad: "length (filter (\<lambda>c. \<not> is_whitespace c) (app_password ?short)) \<noteq> 24"
    by (simp add: example_eval)
  have good: "length (filter (\<lambda>c. \<not> is_whitespace c) (app_password example_config)) = 24
      \<and> list_all is_alnum (filter (\<lambda>c. \<not> is_whitespace c) (app_password example_config))"
    by (simp add: example_eval)
  have a: "\<not> isValidApplicationPassword (app_password ?short)
     \<and> new_WordPressAuthenticationManager example_platform ?short
       = Inl \<lparr>type = INVALID_CREDENTIALS,
              message = js ''Application password format is invalid. Should be in format: xxxx xxxx xxxx xxxx xxxx xxxx'',
              httpStatus = None\<rparr>"
    using application_password_checked[of ?short example_platform ?url] bad url(2) https
    by blast
  have b: "isValidApplicationPassword (app_password example_config)
     \<and> new_WordPressAuthenticationManager example_platform example_config
         = Inr \<lparr>authState = \<lparr>isAuthenticatedFlag = False, lastVerified = None, credentials = None\<rparr>,
                auth_config = example_config, lastAuthCheck = None\<rparr>"
    using application_password_checked[of example_config example_platform ?url] good url(1) https
    by blast
  show ?thesis
    using a b by (simp add: example_manager_def)
qed

section \<open>Properties of the HTTP client\<close>

lemma requestInterceptor_retryCount:
  "retryCount (snd (requestInterceptor P c now)) = retryCount c"
  by (auto simp add: requestInterceptor_def split: prod.splits sum.splits option.splits if_splits)

lemma handleResponseError_Resubmit:
  assumes "handleResponseError P c now err = (Resubmit, c')"
  shows "retryCount c = 0 \<and> retryCount c' = 1 \<and> map_option status (response err) = Some 401"
  using assms
  by (auto simp add: handleResponseError_def Let_def
      split: prod.splits sum.splits option.splits if_splits)

lemma handleResponseError_retryCount_mono:
  "retryCount c \<le> retryCount (snd (handleResponseError P c now err))"
  by (auto simp add: handleResponseError_def Let_def
      split: prod.splits sum.splits option.splits if_splits)

lemma handleResponseError_retried:
  assumes "map_option status (response err) = Some 401" and "1 \<le> retryCount c"
  shows "handleResponseError P c now err =
           (Rethrow unauthorized, c\<lparr>authManager := invalidateAuth (authManager c)\<rparr>)"
  using assms by (simp add: handleResponseError_def Let_def unauthorized_def)

lemma authenticate_ok:
  assumes "\<forall>s. Buffer_base64 P s \<noteq> None"
  shows "fst (authenticate P m now) = Inr ()"
    and "isAuthenticated (snd (authenticate P m now)) t"
    and "\<exists>h. getAuthorizationHeader (snd (authenticate P m now)) = Inr h"
  using assms
  by (auto simp add: authenticate_def generateAuthHeader_def isAuthenticated_def
      getAuthorizationHeader_def split: option.splits)

lemma handleResponseError_first_401:
  assumes "map_option status (response err) = Some 401" and "retryCount c = 0"
    and "\<forall>s. Buffer_base64 P s \<noteq> None"
  shows "handleResponseError P c now err =
           (Resubmit, c\<lparr>authManager := snd (authenticate P (invalidateAuth (authManager c)) now),
                        retryCount := 1\<rparr>)"
proof -
  obtain m where a: "authenticate P (invalidateAuth (authManager c)) now = (Inr (), m)"
    using authenticate_ok(1)[OF assms(3), of "invalidateAuth (authManager c)" now]
    by (cases "authenticate P (invalidateAuth (authManager c)) now") auto
  show ?thesis
    using assms(1,2) a by (simp add: handleResponseError_def Let_def)
qed

lemma requestInterceptor_authenticated:
  assumes "rateLimiter c = None"
    and "isAuthenticated (authManager c) now"
    and "getAuthorizationHeader (authManager c) = Inr h"
  shows "requestInterceptor P c now = (Inr h, c)"
  using assms by (simp add: requestInterceptor_def)

lemma requestInterceptor_rateLimiter_None:
  "rateLimiter c = None \<Longrightarrow> rateLimiter (snd (requestInterceptor P c now)) = None"
  by (auto simp add: requestInterceptor_def split: prod.splits sum.splits if_splits)

lemma deliver_sent:
  "requestInterceptor P c now = (Inr h, c1) \<Longrightarrow>
     deliver P c now ((t, s) # rest) = (Some (t, s, rest), c1)"
  by (simp add: deliver_def)

lemma request_Returned:
  "deliver P c now script = (Some (t, Resolved r, rest), c1) \<Longrightarrow>
     request P c now script = (Returned r, c1\<lparr>retryCount := 0\<rparr>, rest, 0)"
  by (subst request.simps) (simp add: responseInterceptor_def)

lemma request_Threw:
  "deliver P c now script = (Some (t, Rejected err, rest), c1) \<Longrightarrow>
   handleResponseError P c1 t err = (Rethrow x, c2) \<Longrightarrow>
     request P c now script = (Threw x, c2, rest, 0)"
  by (subst request.simps) (simp add: responseInterceptor_def)

lemma request_Resubmit:
  "deliver P c now script = (Some (t, Rejected err, rest), c1) \<Longrightarrow>
   handleResponseError P c1 t err = (Resubmit, c2) \<Longrightarrow>
   request P c2 t rest = (out, c3, rest', n) \<Longrightarrow>
     request P c now script = (out, c3, rest', Suc n)"
  by (subst request.simps) (simp add: responseInterceptor_def)

lemma request_retry_once:
  assumes limiter: "rateLimiter c = None"
    and fresh: "retryCount c = 0"
    and encoder: "\<forall>s. Buffer_base64 P s \<noteq> None"
    and sent: "requestInterceptor P c now = (Inr h, c1)"
    and first: "map_option status (response err) = Some 401"
  shows "request P c now ((t1, Rejected err) # (t2, Resolved r) # rest)
           = (Returned r,
              c1\<lparr>authManager := snd (authenticate P (invalidateAuth (authManager c1)) t1),
                 retryCount := 0\<rparr>, rest, Suc 0)"
    and "map_option status (response err2) = Some 401 \<Longrightarrow>
         request P c now ((t1, Rejected err) # (t2, Rejected err2) # rest)
           = (Threw unauthorized,
              c1\<lparr>authManager := invalidateAuth (authManager c1), retryCount := 1\<rparr>, rest, Suc 0)"
proof -
  let ?m = "snd (authenticate P (invalidateAuth (authManager c1)) t1)"
  let ?c2 = "c1\<lparr>authManager := ?m, retryCount := 1\<rparr>"
  have c1: "rateLimiter c1 = None" "retryCount c1 = 0"
    using requestInterceptor_rateLimiter_None[OF limiter, of P now]
      requestInterceptor_retryCount[of P c now] sent fresh by simp_all
  have h1: "handleResponseError P c1 t1 err = (Resubmit, ?c2)"
    using handleResponseError_first_401[OF first c1(2) encoder] .
  obtain h2 where h2: "getAuthorizationHeader ?m = Inr h2"
    using authenticate_ok(3)[OF encoder] by blast
  have again: "requestInterceptor P ?c2 t1 = (Inr h2, ?c2)"
    using c1(1) authenticate_ok(2)[OF encoder] h2
    by (intro requestInterceptor_authenticated) simp_all
  have "request P ?c2 t1 ((t2, Resolved r) # rest) = (Returned r, ?c2\<lparr>retryCount := 0\<rparr>, rest, 0)"
    by (rule request_Returned[OF deliver_sent[OF again]])
  then have inner_ok: "request P ?c2 t1 ((t2, Resolved r) # rest)
      = (Returned r, c1\<lparr>authManager := ?m, retryCount := 0\<rparr>, rest, 0)"
    by simp
  show "request P c now ((t1, Rejected err) # (t2, Resolved r) # rest)
           = (Returned r, c1\<lparr>authManager := ?m, retryCount := 0\<rparr>, rest, Suc 0)"
    by (rule request_Resubmit[OF deliver_sent[OF sent] h1 inner_ok])
  assume second: "map_option status (response err2) = Some 401"
  have "handleResponseError P ?c2 t2 err2
      = (Rethrow unauthorized, ?c2\<lparr>authManager := invalidateAuth (authManager ?c2)\<rparr>)"
    using second by (intro handleResponseError_retried) simp_all
  moreover have "invalidateAuth ?m = invalidateAuth (authManager c1)"
    by (simp add: invalidateAuth_def authenticate_def split: option.splits)
  ultimately have h3: "handleResponseError P ?c2 t2 err2
      = (Rethrow unauthorized, c1\<lparr>authManager := invalidateAuth (authManager c1), retryCount := 1\<rparr>)"
    by simp
  have inner_bad: "request P ?c2 t1 ((t2, Rejected err2) # rest)
      = (Threw unauthorized, c1\<lparr>authManager := invalidateAuth (authManager c1), retryCount := 1\<rparr>, rest, 0)"
    by (rule request_Threw[OF deliver_sent[OF again] h3])
  show "request P c now ((t1, Rejected err) # (t2, Rejected err2) # rest)
           = (Threw unauthorized,
              c1\<lparr>authManager := invalidateAuth (authManager c1), retryCount := 1\<rparr>, rest, Suc 0)"
    by (rule request_Resubmit[OF deliver_sent[OF sent] h1 inner_bad])
qed

lemma request_no_retry:
  assumes sent: "requestInterceptor P c now = (Inr h, c1)"
    and stale: "1 \<le> retryCount c"
    and first: "map_option status (response err) = Some 401"
  shows "request P c now ((t1, Rejected err) # rest)
           = (Threw unauthorized, c1\<lparr>authManager := invalidateAuth (authManager c1)\<rparr>, rest, 0)"
proof -
  have "1 \<le> retryCount c1"
    using requestInterceptor_retryCount[of P c now] sent stale by simp
  then have "handleResponseError P c1 t1 err
      = (Rethrow unauthorized, c1\<lparr>authManager := invalidateAuth (authManager c1)\<rparr>)"
    using first by (intro handleResponseError_retried)
  then show ?thesis
    by (rule request_Threw[OF deliver_sent[OF sent]])
qed

lemma responseInterceptor_Resubmit:
  assumes "responseInterceptor P c t s = (Inr Resubmit, c')"
  shows "retryCount c = 0 \<and> retryCount c' = 1"
proof (cases s)
  case (Resolved r)
  with assms show ?thesis by (simp add: responseInterceptor_def)
next
  case (Rejected err)
  with assms have "handleResponseError P c t err = (Resubmit, c')"
    by (simp add: responseInterceptor_def split: prod.splits)
  then show ?thesis
    using handleResponseError_Resubmit by blast
qed

lemma responseInterceptor_Rejected_mono:
  "retryCount c \<le> retryCount (snd (responseInterceptor P c t (Rejected err)))"
  using handleResponseError_retryCount_mono[of c P t err]
  by (cases "handleResponseError P c t err") (simp add: responseInterceptor_def)

lemma resubmissions_bound:
  "\<forall>ev \<in> set evs. \<not> succeeded ev \<Longrightarrow> resubmissions P c evs \<le> 1 - retryCount c"
proof (induction evs arbitrary: c)
  case Nil
  then show ?case by simp
next
  case (Cons ev evs)
  have rest: "\<forall>ev \<in> set evs. \<not> succeeded ev"
    using Cons.prems by simp
  show ?case
  proof (cases ev)
    case (Sent t)
    then show ?thesis
      using Cons.IH[OF rest, of "snd (requestInterceptor P c t)"]
      by (simp add: requestInterceptor_retryCount)
  next
    case (Arrived t s)
    then obtain err where s: "s = Rejected err"
      using Cons.prems by (cases s) auto
    obtain r c' where step: "responseInterceptor P c t s = (r, c')"
      by (cases "responseInterceptor P c t s")
    have IH: "resubmissions P c' evs \<le> 1 - retryCount c'"
      using Cons.IH[OF rest] .
    show ?thesis
    proof (cases "r = Inr Resubmit")
      case True
      then have "retryCount c = 0 \<and> retryCount c' = 1"
        using responseInterceptor_Resubmit step by blast
      then show ?thesis
        using IH True step Arrived by simp
    next
      case False
      have "retryCount c \<le> retryCount c'"
        using responseInterceptor_Rejected_mono[of c P t err] step s by simp
      then show ?thesis
        using IH False step Arrived by simp
    qed
  qed
qed

text \<open>
  Claim C9.  The retry counter is one field of the client.  The response interceptor
  resets it on a response; the request interceptor leaves it alone; an error never
  lowers it; a resubmission takes it from 0 to 1.  So along any sequence of interceptor
  runs without a successful response, whatever requests they belong to, at most one
  request is resubmitted, and none once the counter is 1.  With the counter at 1 a 401 is
  thrown at once as \<open>UNAUTHORIZED\<close>: the request consumes only that one settlement and is
  not resubmitted.
\<close>

theorem retry_counter_shared:
  "retryCount (snd (responseInterceptor P c t (Resolved r))) = 0
   \<and> retryCount (snd (requestInterceptor P c t)) = retryCount c
   \<and> retryCount c \<le> retryCount (snd (responseInterceptor P c t (Rejected err)))
   \<and> (fst (responseInterceptor P c t s) = Inr Resubmit \<longrightarrow>
        retryCount c = 0 \<and> retryCount (snd (responseInterceptor P c t s)) = 1)
   \<and> ((\<forall>ev \<in> set evs. \<not> succeeded ev) \<longrightarrow> resubmissions P c evs \<le> 1 - retryCount c)
   \<and> (1 \<le> retryCount c \<longrightarrow> map_option status (response err) = Some 401 \<longrightarrow>
        handleResponseError P c t err
          = (Rethrow unauthorized, c\<lparr>authManager := invalidateAuth (authManager c)\<rparr>)
        \<and> (\<forall>h c1. requestInterceptor P c now = (Inr h, c1) \<longrightarrow>
              request P c now ((t, Rejected err) # rest)
                = (Threw unauthorized, c1\<lparr>authManager := invalidateAuth (authManager c1)\<rparr>, rest, 0)))"
proof -
  have a: "retryCount (snd (responseInterceptor P c t (Resolved r))) = 0"
    by (simp add: responseInterceptor_def)
  have b: "retryCount (snd (requestInterceptor P c t)) = retryCount c"
    by (rule requestInterceptor_retryCount)
  have c: "retryCount c \<le> retryCount (snd (responseInterceptor P c t (Rejected err)))"
    by (rule responseInterceptor_Rejected_mono)
  have d: "retryCount c = 0 \<and> retryCount (snd (responseInterceptor P c t s)) = 1"
    if "fst (responseInterceptor P c t s) = Inr Resubmit"
    using that responseInterceptor_Resubmit[of P c t s "snd (responseInterceptor P c t s)"]
    by (cases "responseInterceptor P c t s") simp
  have e: "resubmissions P c evs \<le> 1 - retryCount c" if "\<forall>ev \<in> set evs. \<not> succeeded ev"
    using that by (rule resubmissions_bound)
  have f: "handleResponseError P c t err
          = (Rethrow unauthorized, c\<lparr>authManager := invalidateAuth (authManager c)\<rparr>)"
    if "1 \<le> retryCount c" "map_option status (response err) = Some 401"
    using that(2,1) by (rule handleResponseError_retried)
  have g: "request P c now ((t, Rejected err) # rest)
                = (Threw unauthorized, c1\<lparr>authManager := invalidateAuth (authManager c1)\<rparr>, rest, 0)"
    if "1 \<le> retryCount c" "map_option status (response err) = Some 401"
      "requestInterceptor P c now = (Inr h, c1)" for h c1
    using that(3,1,2) by (rule request_no_retry)
  show ?thesis
    using a b c d e f g by blast
qed

lemmas client_eval =
  example_client_def example_manager_def example_config_def example_platform_def
  new_WordPressHttpClient_def response_401_def response_403_def response_404_def
  response_200_def unauthorized_def

lemma requestInterceptor_unauthenticated:
  assumes "rateLimiter c = None"
    and "\<not> isAuthenticatedFlag (authState (authManager c))"
    and "\<forall>s. Buffer_base64 P s \<noteq> None"
  shows "\<exists>h. requestInterceptor P c now
           = (Inr h, c\<lparr>authManager := snd (authenticate P (authManager c) now)\<rparr>)"
proof -
  obtain m where a: "authenticate P (authManager c) now = (Inr (), m)"
    using authenticate_ok(1)[OF assms(3), of "authManager c" now]
    by (cases "authenticate P (authManager c) now") auto
  obtain h where "getAuthorizationHeader m = Inr h"
    using authenticate_ok(3)[OF assms(3), of "authManager c" now] a by auto
  then show ?thesis
    using assms(1,2) a by (simp add: requestInterceptor_def isAuthenticated_def)
qed

lemma stale_counter_blocks_retry:
  assumes limiter: "rateLimiter c = None"
    and fresh: "retryCount c = 0"
    and encoder: "\<forall>s. Buffer_base64 P s \<noteq> None"
    and unauth: "\<not> isAuthenticatedFlag (authState (authManager c))"
    and e1: "map_option status (response err1) = Some 401"
    and e2: "map_option status (response err2) = Some 401"
    and e3: "map_option status (response err3) = Some 401"
  shows "\<exists>c1 c2. request P c now [(t1, Rejected err1), (t2, Rejected err2)]
                    = (Threw unauthorized, c1, [], Suc 0)
               \<and> retryCount c1 = 1
               \<and> request P c1 now' ((t3, Rejected err3) # rest) = (Threw unauthorized, c2, rest, 0)"
proof -
  let ?a = "c\<lparr>authManager := snd (authenticate P (authManager c) now)\<rparr>"
  let ?c1 = "?a\<lparr>authManager := invalidateAuth (authManager ?a), retryCount := 1\<rparr>"
  obtain h where sent: "requestInterceptor P c now = (Inr h, ?a)"
    using requestInterceptor_unauthenticated[OF limiter unauth encoder] by blast
  have r1: "request P c now [(t1, Rejected err1), (t2, Rejected err2)]
              = (Threw unauthorized, ?c1, [], Suc 0)"
    using request_retry_once(2)[OF limiter fresh encoder sent e1 e2] .
  have "rateLimiter ?c1 = None" and "\<not> isAuthenticatedFlag (authState (authManager ?c1))"
    using limiter by (simp_all add: invalidateAuth_def)
  then obtain h' where sent': "requestInterceptor P ?c1 now'
      = (Inr h', ?c1\<lparr>authManager := snd (authenticate P (authManager ?c1) now')\<rparr>)"
    using requestInterceptor_unauthenticated[OF _ _ encoder, of ?c1 now'] by blast
  have "1 \<le> retryCount ?c1" by simp
  from request_no_retry[OF sent' this e3, of t3 rest] r1
  show ?thesis by (intro exI conjI) (assumption, simp, assumption)
qed

text \<open>
  Claim C2 at the input where the code departs from it.  A first request on a new client
  is answered 401 and, on its one retry, 401 again: it ends in \<open>UNAUTHORIZED\<close> and leaves
  the counter at 1.  The next request on the same client is answered 401 while a retry
  would be answered 200: it ends in \<open>UNAUTHORIZED\<close> at once, is not resubmitted, and the
  200 is never asked for.  (On a client whose counter is 0, \<open>request_retry_once\<close> above
  gives the behaviour the claim describes.)
\<close>

theorem second_request_not_retried:
  "(case request example_platform example_client 0
           [(10, Rejected response_401), (20, Rejected response_401)] of
      (out1, c1, rest1, n1) \<Rightarrow>
        out1 = Threw unauthorized \<and> n1 = 1 \<and> retryCount c1 = 1
        \<and> (case request example_platform c1 30
                   [(40, Rejected response_401), (50, Resolved response_200)] of
              (out2, c2, rest2, n2) \<Rightarrow>
                out2 = Threw unauthorized \<and> n2 = 0 \<and> rest2 = [(50, Resolved response_200)]))"
proof -
  have s: "map_option status (response response_401) = Some 401"
    by (simp add: response_401_def)
  have "rateLimiter example_client = None" "retryCount example_client = 0"
    "\<not> isAuthenticatedFlag (authState (authManager example_client))"
    "\<forall>s. Buffer_base64 example_platform s \<noteq> None"
    by (simp_all add: client_eval)
  from stale_counter_blocks_retry[OF this(1,2,4,3) s s s, of 0 10 20 30 40 "[(50, Resolved response_200)]"]
  show ?thesis by auto
qed

theorem retry_counter_shared_witness:
  "resubmissions example_platform example_client
      [Sent 0, Arrived 10 (Rejected response_401), Sent 10, Arrived 20 (Rejected response_401),
       Sent 30, Arrived 40 (Rejected response_401)] \<le> 1
   \<and> handleResponseError example_platform (example_client\<lparr>retryCount := 1\<rparr>) 40 response_401
       = (Rethrow unauthorized,
          example_client\<lparr>retryCount := 1, authManager := invalidateAuth example_manager\<rparr>)"
proof -
  let ?evs = "[Sent 0, Arrived 10 (Rejected response_401), Sent 10, Arrived 20 (Rejected response_401),
       Sent 30, Arrived 40 (Rejected response_401)]"
  have none: "\<forall>ev \<in> set ?evs. \<not> succeeded ev"
    by simp
  have s: "map_option status (response response_401) = Some 401"
    by (simp add: response_401_def)
  have rc0: "retryCount example_client = 0"
    by (simp add: example_client_def new_WordPressHttpClient_def)
  have a: "resubmissions example_platform example_client ?evs \<le> 1"
    using retry_counter_shared[of example_platform example_client 0 response_200 response_401
        "Rejected response_401" ?evs 0 "[]"] none rc0
    by (simp del: resubmissions.simps)
  have b: "handleResponseError example_platform (example_client\<lparr>retryCount := 1\<rparr>) 40 response_401
       = (Rethrow unauthorized,
          example_client\<lparr>retryCount := 1, authManager := invalidateAuth example_manager\<rparr>)"
    using retry_counter_shared[of example_platform "example_client\<lparr>retryCount := 1\<rparr>" 40
        response_200 response_401 "Rejected response_401" "[]" 0 "[]"] s
    by (simp add: example_client_def new_WordPressHttpClient_def)
  show ?thesis
    using a b by simp
qed

lemma unclassified_error_sanitized:
  assumes "response err = None" and "code err = None"
  shows "handleResponseError P c now err =
           (case sanitizeErrorMessage P (authManager c) (error_message err) of
              None \<Rightarrow> (Rethrow SyntaxError, c)
            | Some msg \<Rightarrow>
                (Rethrow (AuthError \<lparr>type = UNKNOWN_ERROR, message = msg, httpStatus = None\<rparr>), c))"
  using assms by (simp add: handleResponseError_def Let_def)

lemma forbidden_message_verbatim:
  assumes "response err = Some r" and "status r = 403" and "data_message r = Some msg" and "msg \<noteq> []"
  shows "handleResponseError P c now err
           = (Rethrow (AuthError \<lparr>type = FORBIDDEN, message = msg, httpStatus = Some 403\<rparr>), c)"
  using assms by (simp add: handleResponseError_def Let_def or_default_def)

lemma leaked_includes_password: "String_includes leaked (app_password example_config)"
  by (simp add: leaked_def example_config_def js_def)

lemma leaked_has_Basic_token:
  "replace_Basic leaked = js ''Rejected abcd efgh ijkl mnop qrst uvwx (Basic [CREDENTIALS])''"
  by (simp add: leaked_def js_def match_Basic_def fold_case_def is_whitespace_def
      is_token_char_def is_alnum_def Let_def)

text \<open>
  Claim C1 at the input where the code departs from it.  A 403 response whose body
  message contains the configured password and a \<open>Basic\<close> token is thrown as a
  \<open>FORBIDDEN\<close> error with that message unchanged: it still includes the password, and
  the replacement of \<open>Basic\<close> tokens, which \<open>sanitizeErrorMessage\<close> would have made, has
  not been applied to it.
\<close>

theorem forbidden_message_leaks_credentials:
  "handleResponseError example_platform example_client 0 response_403
     = (Rethrow (AuthError \<lparr>type = FORBIDDEN, message = leaked, httpStatus = Some 403\<rparr>),
        example_client)
   \<and> String_includes leaked (app_password (auth_config (authManager example_client)))
   \<and> replace_Basic leaked \<noteq> leaked"
proof -
  have "leaked \<noteq> []"
    by (simp add: leaked_def js_def)
  then have "handleResponseError example_platform example_client 0 response_403
     = (Rethrow (AuthError \<lparr>type = FORBIDDEN, message = leaked, httpStatus = Some 403\<rparr>),
        example_client)"
    by (intro forbidden_message_verbatim[where r = "\<lparr>status = 403, data_message = Some leaked\<rparr>"])
       (simp_all add: response_403_def leaked_def)
  moreover have "String_includes leaked (app_password (auth_config (authManager example_client)))"
    using leaked_includes_password
    by (simp add: example_client_def new_WordPressHttpClient_def example_manager_def)
  moreover have "replace_Basic leaked \<noteq> leaked"
    unfolding leaked_has_Basic_token by (simp add: leaked_def js_def)
  ultimately show ?thesis by simp
qed

lemma no_NOT_FOUND_category: "AuthErrorType_value t \<noteq> js ''NOT_FOUND''"
  by (cases t) (simp_all add: js_def)

lemma handleResponseError_categories:
  assumes "handleResponseError P c now err = (Rethrow (AuthError e), c')"
  shows "type e \<in> {INVALID_CREDENTIALS, UNAUTHORIZED, FORBIDDEN, TIMEOUT, NETWORK_ERROR,
                    SSL_ERROR, RATE_LIMITED, UNKNOWN_ERROR}"
  using assms
  by (auto simp add: handleResponseError_def Let_def
      split: prod.splits sum.splits option.splits if_splits)

lemma handleResponseError_classified:
  assumes "map_option status (response err) \<noteq> Some 401"
    and "sanitizeErrorMessage P (authManager c) (error_message err) \<noteq> None"
  shows "\<exists>e. handleResponseError P c now err = (Rethrow (AuthError e), c)
           \<and> type e \<in> {FORBIDDEN, TIMEOUT, NETWORK_ERROR, SSL_ERROR, RATE_LIMITED, UNKNOWN_ERROR}"
  using assms
  by (auto simp add: handleResponseError_def Let_def split: option.splits)

lemma handleResponseError_401:
  assumes "map_option status (response err) = Some 401"
  shows "(retryCount c = 0 \<and> (\<exists>c'. handleResponseError P c now err = (Resubmit, c')))
       \<or> (\<exists>e c'. handleResponseError P c now err = (Rethrow (AuthError e), c')
             \<and> type e \<in> {UNAUTHORIZED, INVALID_CREDENTIALS} \<and> httpStatus e = Some 401)"
  using assms
  by (auto simp add: handleResponseError_def Let_def split: prod.splits sum.splits)

lemma handleResponseError_transport:
  assumes "response err = None"
  shows "code err = Some (js ''ECONNABORTED'') \<or> code err = Some (js ''ETIMEDOUT'') \<Longrightarrow>
           handleResponseError P c now err
             = (Rethrow (AuthError
                  \<lparr>type = TIMEOUT, message = js ''Request timed out'', httpStatus = None\<rparr>), c)"
    and "code err = Some (js ''CERT_HAS_EXPIRED'')
           \<or> code err = Some (js ''UNABLE_TO_VERIFY_LEAF_SIGNATURE'') \<Longrightarrow>
           handleResponseError P c now err
             = (Rethrow (AuthError
                  \<lparr>type = SSL_ERROR,
                   message = js ''SSL certificate error. Check your WordPress site's SSL configuration.'',
                   httpStatus = None\<rparr>), c)"
  using assms by (auto simp add: handleResponseError_def Let_def js_def)

lemma handleResponseError_fall_through:
  assumes "case response err of None \<Rightarrow> True | Some r \<Rightarrow> status r < 400"
    and "code err \<noteq> Some (js ''ECONNABORTED'')" and "code err \<noteq> Some (js ''ETIMEDOUT'')"
    and "code err \<noteq> Some (js ''CERT_HAS_EXPIRED'')"
    and "code err \<noteq> Some (js ''UNABLE_TO_VERIFY_LEAF_SIGNATURE'')"
    and "sanitizeErrorMessage P (authManager c) (error_message err) = Some msg"
  shows "handleResponseError P c now err
           = (Rethrow (AuthError
                \<lparr>type = UNKNOWN_ERROR, message = msg,
                 httpStatus = map_option status (response err)\<rparr>), c)"
  using assms by (auto simp add: handleResponseError_def Let_def split: option.splits)

text \<open>
  Claim C3, as amended.  Every error that reaches \<open>handleResponseError\<close>, a response
  outside 2xx or a transport failure, is classified, provided the two patterns that
  \<open>sanitizeErrorMessage\<close> compiles from the configuration do compile.  An error other than
  a 401 is thrown as one classified error of category \<open>FORBIDDEN\<close>, \<open>TIMEOUT\<close>,
  \<open>NETWORK_ERROR\<close>, \<open>SSL_ERROR\<close>, \<open>RATE_LIMITED\<close> or \<open>UNKNOWN_ERROR\<close>, with the client
  unchanged.  A 401 is resubmitted, on a counter of 0, or thrown as \<open>UNAUTHORIZED\<close> or
  \<open>INVALID_CREDENTIALS\<close>.  No classified error has a category outside these eight.
  A 403 is thrown as \<open>FORBIDDEN\<close>, and a 429 as \<open>RATE_LIMITED\<close> without a resubmission.
  For an error whose code is none of the four time-out and certificate codes, a status of
  500 or more is thrown as \<open>NETWORK_ERROR\<close> with that status, and any other status from
  400 to 499 except 401, 404 included, as \<open>UNKNOWN_ERROR\<close> with that status and the
  message of the body.  A transport failure with a time-out code is thrown as \<open>TIMEOUT\<close>,
  one with a certificate code as \<open>SSL_ERROR\<close>, and any other one, like a response with a
  status below 400, as \<open>UNKNOWN_ERROR\<close> with the sanitised message of the error.
\<close>

theorem response_error_classification:
  "(map_option status (response err) \<noteq> Some 401 \<longrightarrow>
      sanitizeErrorMessage P (authManager c) (error_message err) \<noteq> None \<longrightarrow>
      (\<exists>e. handleResponseError P c now err = (Rethrow (AuthError e), c)
         \<and> type e \<in> {FORBIDDEN, TIMEOUT, NETWORK_ERROR, SSL_ERROR, RATE_LIMITED, UNKNOWN_ERROR}))
   \<and> (map_option status (response err) = Some 401 \<longrightarrow>
        (retryCount c = 0 \<and> (\<exists>c'. handleResponseError P c now err = (Resubmit, c')))
        \<or> (\<exists>e c'. handleResponseError P c now err = (Rethrow (AuthError e), c')
              \<and> type e \<in> {UNAUTHORIZED, INVALID_CREDENTIALS} \<and> httpStatus e = Some 401))
   \<and> (handleResponseError P c now err = (Rethrow (AuthError e), c') \<longrightarrow>
      type e \<in> {INVALID_CREDENTIALS, UNAUTHORIZED, FORBIDDEN, TIMEOUT, NETWORK_ERROR,
                 SSL_ERROR, RATE_LIMITED, UNKNOWN_ERROR})
   \<and> (response err = Some r \<longrightarrow>
        (status r = 403 \<longrightarrow>
           handleResponseError P c now err
             = (Rethrow (AuthError
                  \<lparr>type = FORBIDDEN,
                   message = or_default (data_message r) (js ''Access forbidden. Check user permissions.''),
                   httpStatus = Some 403\<rparr>), c))
      \<and> (status r = 429 \<longrightarrow>
           handleResponseError P c now err
             = (Rethrow (AuthError
                  \<lparr>type = RATE_LIMITED,
                   message = js ''Rate limit exceeded by WordPress server'',
                   httpStatus = Some 429\<rparr>), c))
      \<and> (code err \<noteq> Some (js ''ECONNABORTED'') \<and> code err \<noteq> Some (js ''ETIMEDOUT'')
           \<and> code err \<noteq> Some (js ''CERT_HAS_EXPIRED'')
           \<and> code err \<noteq> Some (js ''UNABLE_TO_VERIFY_LEAF_SIGNATURE'') \<longrightarrow>
           (500 \<le> status r \<longrightarrow>
              handleResponseError P c now err
                = (Rethrow (AuthError
                     \<lparr>type = NETWORK_ERROR,
                      message = js ''WordPress server error ('' @ Number_toString (int (status r))
                                @ js ''): '' @ or_default (data_message r) (js ''Internal server error''),
                      httpStatus = Some (status r)\<rparr>), c))
         \<and> (400 \<le> status r \<and> status r < 500 \<and> status r \<noteq> 401 \<and> status r \<noteq> 403
              \<and> status r \<noteq> 429 \<longrightarrow>
              handleResponseError P c now err
                = (Rethrow (AuthError
                     \<lparr>type = UNKNOWN_ERROR,
                      message = js ''WordPress API error ('' @ Number_toString (int (status r))
                                @ js ''): '' @ or_default (data_message r) (js ''Bad request''),
                      httpStatus = Some (status r)\<rparr>), c))))
   \<and> (response err = None \<longrightarrow>
        (code err = Some (js ''ECONNABORTED'') \<or> code err = Some (js ''ETIMEDOUT'') \<longrightarrow>
           handleResponseError P c now err
             = (Rethrow (AuthError
                  \<lparr>type = TIMEOUT, message = js ''Request timed out'', httpStatus = None\<rparr>), c))
      \<and> (code err = Some (js ''CERT_HAS_EXPIRED'')
            \<or> code err = Some (js ''UNABLE_TO_VERIFY_LEAF_SIGNATURE'') \<longrightarrow>
           handleResponseError P c now err
             = (Rethrow (AuthError
                  \<lparr>type = SSL_ERROR,
                   message = js ''SSL certificate error. Check your WordPress site's SSL configuration.'',
                   httpStatus = None\<rparr>), c)))
   \<and> ((case response err of None \<Rightarrow> True | Some r' \<Rightarrow> status r' < 400) \<longrightarrow>
        code err \<noteq> Some (js ''ECONNABORTED'') \<and> code err \<noteq> Some (js ''ETIMEDOUT'')
        \<and> code err \<noteq> Some (js ''CERT_HAS_EXPIRED'')
        \<and> code err \<noteq> Some (js ''UNABLE_TO_VERIFY_LEAF_SIGNATURE'') \<longrightarrow>
        sanitizeErrorMessage P (authManager c) (error_message err) = Some msg \<longrightarrow>
        handleResponseError P c now err
          = (Rethrow (AuthError
               \<lparr>type = UNKNOWN_ERROR, message = msg,
                httpStatus = map_option status (response err)\<rparr>), c))"
proof -
  have total: "\<exists>e. handleResponseError P c now err = (Rethrow (AuthError e), c)
         \<and> type e \<in> {FORBIDDEN, TIMEOUT, NETWORK_ERROR, SSL_ERROR, RATE_LIMITED, UNKNOWN_ERROR}"
    if "map_option status (response err) \<noteq> Some 401"
      "sanitizeErrorMessage P (authManager c) (error_message err) \<noteq> None"
    using that by (rule handleResponseError_classified)
  have retried: "(retryCount c = 0 \<and> (\<exists>c'. handleResponseError P c now err = (Resubmit, c')))
        \<or> (\<exists>e c'. handleResponseError P c now err = (Rethrow (AuthError e), c')
              \<and> type e \<in> {UNAUTHORIZED, INVALID_CREDENTIALS} \<and> httpStatus e = Some 401)"
    if "map_option status (response err) = Some 401"
    using that by (rule handleResponseError_401)
  have a: "type e \<in> {INVALID_CREDENTIALS, UNAUTHORIZED, FORBIDDEN, TIMEOUT, NETWORK_ERROR,
                 SSL_ERROR, RATE_LIMITED, UNKNOWN_ERROR}"
    if "handleResponseError P c now err = (Rethrow (AuthError e), c')"
    using that by (rule handleResponseError_categories)
  have b: "handleResponseError P c now err
             = (Rethrow (AuthError
                  \<lparr>type = FORBIDDEN,
                   message = or_default (data_message r) (js ''Access forbidden. Check user permissions.''),
                   httpStatus = Some 403\<rparr>), c)"
    if "response err = Some r" "status r = 403"
    using that by (simp add: handleResponseError_def Let_def)
  have c: "handleResponseError P c now err
             = (Rethrow (AuthError
                  \<lparr>type = RATE_LIMITED,
                   message = js ''Rate limit exceeded by WordPress server'',
                   httpStatus = Some 429\<rparr>), c)"
    if "response err = Some r" "status r = 429"
    using that by (simp add: handleResponseError_def Let_def)
  have d: "handleResponseError P c now err
                = (Rethrow (AuthError
                     \<lparr>type = NETWORK_ERROR,
                      message = js ''WordPress server error ('' @ Number_toString (int (status r))
                                @ js ''): '' @ or_default (data_message r) (js ''Internal server error''),
                      httpStatus = Some (status r)\<rparr>), c)"
    if "response err = Some r" "500 \<le> status r"
      "code err \<noteq> Some (js ''ECONNABORTED'')" "code err \<noteq> Some (js ''ETIMEDOUT'')"
      "code err \<noteq> Some (js ''CERT_HAS_EXPIRED'')"
      "code err \<noteq> Some (js ''UNABLE_TO_VERIFY_LEAF_SIGNATURE'')"
    using that by (simp add: handleResponseError_def Let_def)
  have e: "handleResponseError P c now err
                = (Rethrow (AuthError
                     \<lparr>type = UNKNOWN_ERROR,
                      message = js ''WordPress API error ('' @ Number_toString (int (status r))
                                @ js ''): '' @ or_default (data_message r) (js ''Bad request''),
                      httpStatus = Some (status r)\<rparr>), c)"
    if "response err = Some r" "400 \<le> status r" "status r < 500" "status r \<noteq> 401"
      "status r \<noteq> 403" "status r \<noteq> 429"
      "code err \<noteq> Some (js ''ECONNABORTED'')" "code err \<noteq> Some (js ''ETIMEDOUT'')"
      "code err \<noteq> Some (js ''CERT_HAS_EXPIRED'')"
      "code err \<noteq> Some (js ''UNABLE_TO_VERIFY_LEAF_SIGNATURE'')"
    using that by (simp add: handleResponseError_def Let_def)
  have f: "handleResponseError P c now err
             = (Rethrow (AuthError
                  \<lparr>type = TIMEOUT, message = js ''Request timed out'', httpStatus = None\<rparr>), c)"
    if "response err = None"
      "code err = Some (js ''ECONNABORTED'') \<or> code err = Some (js ''ETIMEDOUT'')"
    using that by (rule handleResponseError_transport(1))
  have g: "handleResponseError P c now err
             = (Rethrow (AuthError
                  \<lparr>type = SSL_ERROR,
                   message = js ''SSL certificate error. Check your WordPress site's SSL configuration.'',
                   httpStatus = None\<rparr>), c)"
    if "response err = None"
      "code err = Some (js ''CERT_HAS_EXPIRED'')
        \<or> code err = Some (js ''UNABLE_TO_VERIFY_LEAF_SIGNATURE'')"
    using that by (rule handleResponseError_transport(2))
  have h: "handleResponseError P c now err
          = (Rethrow (AuthError
               \<lparr>type = UNKNOWN_ERROR, message = msg,
                httpStatus = map_option status (response err)\<rparr>), c)"
    if "case response err of None \<Rightarrow> True | Some r' \<Rightarrow> status r' < 400"
      "code err \<noteq> Some (js ''ECONNABORTED'')" "code err \<noteq> Some (js ''ETIMEDOUT'')"
      "code err \<noteq> Some (js ''CERT_HAS_EXPIRED'')"
      "code err \<noteq> Some (js ''UNABLE_TO_VERIFY_LEAF_SIGNATURE'')"
      "sanitizeErrorMessage P (authManager c) (error_message err) = Some msg"
    using that by (rule handleResponseError_fall_through)
  show ?thesis
  proof (intro conjI)
    show "(map_option status (response err) \<noteq> Some 401 \<longrightarrow>
            sanitizeErrorMessage P (authManager c) (error_message err) \<noteq> None \<longrightarrow>
            (\<exists>e. handleResponseError P c now err = (Rethrow (AuthError e), c)
               \<and> type e \<in> {FORBIDDEN, TIMEOUT, NETWORK_ERROR, SSL_ERROR, RATE_LIMITED, UNKNOWN_ERROR}))"
      using total by blast
    show "(map_option status (response err) = Some 401 \<longrightarrow>
              (retryCount c = 0 \<and> (\<exists>c'. handleResponseError P c now err = (Resubmit, c')))
              \<or> (\<exists>e c'. handleResponseError P c now err = (Rethrow (AuthError e), c')
                    \<and> type e \<in> {UNAUTHORIZED, INVALID_CREDENTIALS} \<and> httpStatus e = Some 401))"
      using retried by blast
    show "(handleResponseError P c now err = (Rethrow (AuthError e), c') \<longrightarrow>
            type e \<in> {INVALID_CREDENTIALS, UNAUTHORIZED, FORBIDDEN, TIMEOUT, NETWORK_ERROR,
                       SSL_ERROR, RATE_LIMITED, UNKNOWN_ERROR})"
      using a by blast
    show "(response err = Some r \<longrightarrow>
              (status r = 403 \<longrightarrow>
                 handleResponseError P c now err
                   = (Rethrow (AuthError
                        \<lparr>type = FORBIDDEN,
                         message = or_default (data_message r) (js ''Access forbidden. Check user permissions.''),
                         httpStatus = Some 403\<rparr>), c))
            \<and> (status r = 429 \<longrightarrow>
                 handleResponseError P c now err
                   = (Rethrow (AuthError
                        \<lparr>type = RATE_LIMITED,
                         message = js ''Rate limit exceeded by WordPress server'',
                         httpStatus = Some 429\<rparr>), c))
            \<and> (code err \<noteq> Some (js ''ECONNABORTED'') \<and> code err \<noteq> Some (js ''ETIMEDOUT'')
                 \<and> code err \<noteq> Some (js ''CERT_HAS_EXPIRED'')
                 \<and> code err \<noteq> Some (js ''UNABLE_TO_VERIFY_LEAF_SIGNATURE'') \<longrightarrow>
                 (500 \<le> status r \<longrightarrow>
                    handleResponseError P c now err
                      = (Rethrow (AuthError
                           \<lparr>type = NETWORK_ERROR,
                            message = js ''WordPress server error ('' @ Number_toString (int (status r))
                                      @ js ''): '' @ or_default (data_message r) (js ''Internal server error''),
                            httpStatus = Some (status r)\<rparr>), c))
               \<and> (400 \<le> status r \<and> status r < 500 \<and> status r \<noteq> 401 \<and> status r \<noteq> 403
                    \<and> status r \<noteq> 429 \<longrightarrow>
                    handleResponseError P c now err
                      = (Rethrow (AuthError
                           \<lparr>type = UNKNOWN_ERROR,
                            message = js ''WordPress API error ('' @ Number_toString (int (status r))
                                      @ js ''): '' @ or_default (data_message r) (js ''Bad request''),
                            httpStatus = Some (status r)\<rparr>), c))))"
      using b c d e by blast
    show "(response err = None \<longrightarrow>
              (code err = Some (js ''ECONNABORTED'') \<or> code err = Some (js ''ETIMEDOUT'') \<longrightarrow>
                 handleResponseError P c now err
                   = (Rethrow (AuthError
                        \<lparr>type = TIMEOUT, message = js ''Request timed out'', httpStatus = None\<rparr>), c))
            \<and> (code err = Some (js ''CERT_HAS_EXPIRED'')
                  \<or> code err = Some (js ''UNABLE_TO_VERIFY_LEAF_SIGNATURE'') \<longrightarrow>
                 handleResponseError P c now err
                   = (Rethrow (AuthError
                        \<lparr>type = SSL_ERROR,
                         message = js ''SSL certificate error. Check your WordPress site's SSL configuration.'',
                         httpStatus = None\<rparr>), c)))"
      using f g by blast
    show "((case response err of None \<Rightarrow> True | Some r' \<Rightarrow> status r' < 400) \<longrightarrow>
              code err \<noteq> Some (js ''ECONNABORTED'') \<and> code err \<noteq> Some (js ''ETIMEDOUT'')
              \<and> code err \<noteq> Some (js ''CERT_HAS_EXPIRED'')
              \<and> code err \<noteq> Some (js ''UNABLE_TO_VERIFY_LEAF_SIGNATURE'') \<longrightarrow>
              sanitizeErrorMessage P (authManager c) (error_message err) = Some msg \<longrightarrow>
              handleResponseError P c now err
                = (Rethrow (AuthError
                     \<lparr>type = UNKNOWN_ERROR, message = msg,
                      httpStatus = map_option status (response err)\<rparr>), c))"
      using h by blast
  qed
qed

text \<open>
  The claim C3 as it was stated fails on a 404 response: it is thrown as
  \<open>UNKNOWN_ERROR\<close>, and no member of the enumeration is called \<open>NOT_FOUND\<close>.
\<close>

theorem not_found_is_unknown_error_counterexample:
  "handleResponseError example_platform example_client 0 response_404
     = (Rethrow (AuthError
          \<lparr>type = UNKNOWN_ERROR,
           message = js ''WordPress API error (404): No route was found.'',
           httpStatus = Some 404\<rparr>), example_client)
   \<and> AuthErrorType_value UNKNOWN_ERROR \<noteq> js ''NOT_FOUND''"
  by (simp add: handleResponseError_def Let_def response_404_def or_default_def
      Number_toString_def js_def)

theorem response_error_classification_witness:
  "response response_404 = Some \<lparr>status = 404, data_message = Some (js ''No route was found.'')\<rparr>
   \<and> handleResponseError example_platform example_client 0 response_404
       = (Rethrow (AuthError
            \<lparr>type = UNKNOWN_ERROR,
             message = js ''WordPress API error ('' @ Number_toString 404 @ js ''): ''
                       @ js ''No route was found.'',
             httpStatus = Some 404\<rparr>), example_client)
   \<and> handleResponseError example_platform example_client 0 connection_refused
       = (Rethrow (AuthError
            \<lparr>type = UNKNOWN_ERROR,
             message = js ''connect ECONNREFUSED 203.0.113.7:443'',
             httpStatus = None\<rparr>), example_client)"
proof -
  let ?r = "\<lparr>status = 404, data_message = Some (js ''No route was found.'')\<rparr>"
  have r: "response response_404 = Some ?r"
    by (simp add: response_404_def)
  have codes: "code response_404 \<noteq> Some (js ''ECONNABORTED'')"
    "code response_404 \<noteq> Some (js ''ETIMEDOUT'')"
    "code response_404 \<noteq> Some (js ''CERT_HAS_EXPIRED'')"
    "code response_404 \<noteq> Some (js ''UNABLE_TO_VERIFY_LEAF_SIGNATURE'')"
    by (simp_all add: response_404_def js_def)
  have msg: "or_default (Some (js ''No route was found.'')) (js ''Bad request'') = js ''No route was found.''"
    by (simp add: or_default_def js_def)
  have first: "handleResponseError example_platform example_client 0 response_404
       = (Rethrow (AuthError
            \<lparr>type = UNKNOWN_ERROR,
             message = js ''WordPress API error ('' @ Number_toString 404 @ js ''): ''
                       @ js ''No route was found.'',
             httpStatus = Some 404\<rparr>), example_client)"
    using response_error_classification[of response_404 example_platform example_client 0 _ _ ?r]
      r codes msg
    by simp
  have none: "response connection_refused = None"
    by (simp add: connection_refused_def)
  have codes': "code connection_refused \<noteq> Some (js ''ECONNABORTED'')"
    "code connection_refused \<noteq> Some (js ''ETIMEDOUT'')"
    "code connection_refused \<noteq> Some (js ''CERT_HAS_EXPIRED'')"
    "code connection_refused \<noteq> Some (js ''UNABLE_TO_VERIFY_LEAF_SIGNATURE'')"
    by (simp_all add: connection_refused_def js_def)
  have clean: "sanitizeErrorMessage example_platform (authManager example_client)
        (error_message connection_refused) = Some (js ''connect ECONNREFUSED 203.0.113.7:443'')"
    by (simp add: sanitizeErrorMessage_def example_platform_def connection_refused_def js_def
        match_Basic_def fold_case_def Let_def)
  have second: "handleResponseError example_platform example_client 0 connection_refused
       = (Rethrow (AuthError
            \<lparr>type = UNKNOWN_ERROR,
             message = js ''connect ECONNREFUSED 203.0.113.7:443'',
             httpStatus = None\<rparr>), example_client)"
    using response_error_classification[of connection_refused example_platform example_client 0
        _ _ _ "js ''connect ECONNREFUSED 203.0.113.7:443''"] none codes' clean
    by simp
  show ?thesis
    using r first second by simp
qed

end
